theory Spec2Isabelle
  imports Main
begin

section \<open>Values shared by the whole client\<close>

subsection \<open>Parsed JSON, as Python holds it\<close>

text \<open>
  \<^verbatim>\<open>json.loads\<close> gives Python values: \<^verbatim>\<open>None\<close>, booleans, numbers, strings, lists
  and dicts. The client never looks inside a number; a number that is not an integer is kept as
  its literal text. A dict is kept as the list of its items, in order.
\<close>

datatype json =
    JNull
  | JBool bool
  | JInt int
  | JFloat string
  | JStr string
  | JArr "json list"
  | JObj "(string \<times> json) list"

subsection \<open>Exceptions\<close>

text \<open>
  Modelled from the spec: \<^verbatim>\<open>errors.py\<close> is not among the sources. The error taxonomy
  lists the Linstor error kinds as distinct kinds; a network error carries its underlying causes
  (the failover aggregate). The other constructors are exceptions of the Python runtime and of
  its standard library that the client's code lets through.
\<close>

datatype error =
    LinstorError string
  | LinstorNetworkError string "error list"
  | LinstorTimeoutError string
  | LinstorApiCallError string
  | LinstorArgumentError string
  | BadStatusLine string
  | ZlibError
  | ValueError string
  | TypeError string
  | AttributeError string
  | KeyError string
  | IndexError
  | RecursionError

subsection \<open>Python's \<^verbatim>\<open>in\<close> and \<^verbatim>\<open>for\<close> on a parsed value\<close>

fun is_prefix :: "string \<Rightarrow> string \<Rightarrow> bool" where
  "is_prefix [] ys = True"
| "is_prefix (x # xs) [] = False"
| "is_prefix (x # xs) (y # ys) = (x = y \<and> is_prefix xs ys)"

fun is_substring :: "string \<Rightarrow> string \<Rightarrow> bool" where
  "is_substring xs [] = (xs = [])"
| "is_substring xs (y # ys) = (is_prefix xs (y # ys) \<or> is_substring xs ys)"

text \<open>
  \<^verbatim>\<open>key in data\<close> for a string \<^verbatim>\<open>key\<close>: membership of the string among the elements
  of a list, among the keys of a dict, substring test on a string, and a \<^verbatim>\<open>TypeError\<close> on
  every value that is not a container.
\<close>

fun py_in :: "string \<Rightarrow> json \<Rightarrow> error + bool" where
  "py_in k (JArr xs) = Inr (JStr k \<in> set xs)"
| "py_in k (JObj kvs) = Inr (map_of kvs k \<noteq> None)"
| "py_in k (JStr s) = Inr (is_substring k s)"
| "py_in k v = Inl (TypeError ''argument is not iterable'')"

text \<open>
  \<^verbatim>\<open>for x in data\<close>: the elements of a list, the keys of a dict, the characters of a
  string, and a \<^verbatim>\<open>TypeError\<close> otherwise.
\<close>

fun py_iter :: "json \<Rightarrow> error + json list" where
  "py_iter (JArr xs) = Inr xs"
| "py_iter (JObj kvs) = Inr (map (\<lambda>kv. JStr (fst kv)) kvs)"
| "py_iter (JStr s) = Inr (map (\<lambda>c. JStr [c]) s)"
| "py_iter v = Inl (TypeError ''object is not iterable'')"

subsection \<open>Decimal text of a number\<close>

definition digit_char :: "nat \<Rightarrow> char" where
  "digit_char d = ''0123456789'' ! d"

function str_nat :: "nat \<Rightarrow> string" where
  "str_nat n = (if n < 10 then [digit_char n] else str_nat (n div 10) @ [digit_char (n mod 10)])"
  by pat_completeness auto
termination
  by (relation "measure id") auto

section \<open>Response classes and the dispatch table\<close>

text \<open>
  Modelled from the spec: \<^verbatim>\<open>sharedconsts.py\<close> is not among the sources. The operation
  identifiers that the dispatch table names are kept by the names of their constants, taken to
  be pairwise distinct; \<open>API_OTHER\<close> is any other identifier.
\<close>

datatype apicall =
    API_LST_NODE
  | API_LST_STOR_POOL
  | API_LST_RSC_DFN
  | API_LST_RSC_GRP
  | API_LST_VLM_GRP
  | API_LST_VLM_DFN
  | API_LST_RSC
  | API_LST_VLM
  | API_LST_SNAPSHOT_DFN
  | API_REQ_ERROR_REPORTS
  | API_LST_CTRL_PROPS
  | API_REQ_RSC_CONN_LIST
  | API_LST_STOR_POOL_DFN
  | API_QRY_MAX_VLM_SIZE
  | API_LST_KVS
  | API_VERSION
  | API_OTHER string

datatype response_class =
    ApiCallResponse
  | ErrorReport
  | NodeListResponse
  | StoragePoolListResponse
  | ResourceDefinitionResponse
  | ResourceGroupResponse
  | VolumeGroupResponse
  | VolumeDefinitionResponse
  | ResourceResponse
  | VolumeResponse
  | SnapshotResponse
  | ControllerProperties
  | ResourceConnectionsResponse
  | StoragePoolDefinitionResponse
  | MaxVolumeSizeResponse
  | KeyValueStoresResponse
  | ControllerVersion

text \<open>
  Modelled from the spec: \<^verbatim>\<open>responses.py\<close> is not among the sources. The response
  classes are passive data holders over the wire data, so an instance is its class together
  with the parsed data its constructor was given.
\<close>

datatype response = Instance response_class json

definition APICALL2RESPONSE :: "(apicall \<times> response_class) list" where
  "APICALL2RESPONSE =
    [(API_LST_NODE, NodeListResponse),
     (API_LST_STOR_POOL, StoragePoolListResponse),
     (API_LST_RSC_DFN, ResourceDefinitionResponse),
     (API_LST_RSC_GRP, ResourceGroupResponse),
     (API_LST_VLM_GRP, VolumeGroupResponse),
     (API_LST_VLM_DFN, VolumeDefinitionResponse),
     (API_LST_RSC, ResourceResponse),
     (API_LST_VLM, VolumeResponse),
     (API_LST_SNAPSHOT_DFN, SnapshotResponse),
     (API_REQ_ERROR_REPORTS, ErrorReport),
     (API_LST_CTRL_PROPS, ControllerProperties),
     (API_REQ_RSC_CONN_LIST, ResourceConnectionsResponse),
     (API_LST_STOR_POOL_DFN, StoragePoolDefinitionResponse),
     (API_QRY_MAX_VLM_SIZE, MaxVolumeSizeResponse),
     (API_LST_KVS, KeyValueStoresResponse),
     (API_VERSION, ControllerVersion)]"

text \<open>\<^verbatim>\<open>APICALL2RESPONSE.get(apicall, ApiCallResponse)\<close>\<close>

definition response_class_of :: "apicall \<Rightarrow> response_class" where
  "response_class_of apicall =
    (case map_of APICALL2RESPONSE apicall of None \<Rightarrow> ApiCallResponse | Some c \<Rightarrow> c)"

section \<open>HTTP responses and the library functions the client calls\<close>

text \<open>
  What the client reads of a response: the status, the \<^verbatim>\<open>Content-Encoding\<close> and
  \<^verbatim>\<open>Location\<close> headers (absent: \<open>None\<close>) and the body that \<^verbatim>\<open>read()\<close> gives.
\<close>

record http_response =
  status :: nat
  content_encoding :: "string option"
  location :: "string option"
  data :: string

record url =
  scheme :: string
  hostname :: string
  port :: "nat option"

text \<open>
  The functions of Python's standard library are parameters of the model:
  \<^verbatim>\<open>urlparse\<close>; \<^verbatim>\<open>json.loads\<close>, where \<open>Inl\<close> holds the text of the
  \<^verbatim>\<open>ValueError\<close> it raises; and \<^verbatim>\<open>zlib.decompress\<close>, where \<open>None\<close> is its
  \<^verbatim>\<open>zlib.error\<close>.
\<close>

record pylib =
  urlparse :: "string \<Rightarrow> url"
  json_loads :: "string \<Rightarrow> string + json"
  zlib_decompress :: "string \<Rightarrow> string option"

section \<open>The response classifier\<close>

definition decode_response_data :: "pylib \<Rightarrow> http_response \<Rightarrow> error + string" where
  "decode_response_data lib r =
    (if content_encoding r = Some ''gzip''
     then (case zlib_decompress lib (data r) of None \<Rightarrow> Inl ZlibError | Some d \<Rightarrow> Inr d)
     else Inr (data r))"

definition convert_rest_response ::
  "pylib \<Rightarrow> apicall \<Rightarrow> http_response \<Rightarrow> string \<Rightarrow> error + response list" where
  "convert_rest_response lib apicall r path =
    (case decode_response_data lib r of
       Inl e \<Rightarrow> Inl e
     | Inr resp_data \<Rightarrow>
        (case json_loads lib resp_data of
           Inl ve \<Rightarrow>
             Inl (LinstorError (''Unable to parse REST json data: '' @ ve @ [CHR 0x0A] @
                                ''Request-Uri: '' @ path @ ''; Status: '' @ str_nat (status r)))
         | Inr d \<Rightarrow>
            (let response_class = response_class_of apicall in
             if response_class \<in> set [ApiCallResponse, ErrorReport]
             then (case py_iter d of
                     Inl e \<Rightarrow> Inl e
                   | Inr xs \<Rightarrow> Inr (map (Instance response_class) xs))
             else (case py_in ''ret_code'' d of
                     Inl e \<Rightarrow> Inl e
                   | Inr True \<Rightarrow>
                      (case py_iter d of
                         Inl e \<Rightarrow> Inl e
                       | Inr xs \<Rightarrow> Inr (map (Instance ApiCallResponse) xs))
                   | Inr False \<Rightarrow> Inr [Instance response_class d]))))"

section \<open>Size strings\<close>

definition is_digit :: "char \<Rightarrow> bool" where
  "is_digit c = (c \<in> set ''0123456789'')"

definition digit_value :: "char \<Rightarrow> int" where
  "digit_value c =
    (case map_of (zip ''0123456789'' [0, 1, 2, 3, 4, 5, 6, 7, 8, 9]) c of None \<Rightarrow> 0 | Some v \<Rightarrow> v)"

text \<open>\<^verbatim>\<open>int(digits)\<close> for a run of decimal digits.\<close>

definition int_of_digits :: "string \<Rightarrow> int" where
  "int_of_digits ds = foldl (\<lambda>a c. 10 * a + digit_value c) 0 ds"

text \<open>\<^verbatim>\<open>str.lower()\<close>, on ASCII letters.\<close>

definition lower_char :: "char \<Rightarrow> char" where
  "lower_char c =
    (case map_of (zip ''ABCDEFGHIJKLMNOPQRSTUVWXYZ'' ''abcdefghijklmnopqrstuvwxyz'') c of
       None \<Rightarrow> c
     | Some l \<Rightarrow> l)"

definition lower :: "string \<Rightarrow> string" where
  "lower s = map lower_char s"

text \<open>
  Modelled from the spec: \<^verbatim>\<open>size_calc.py\<close> (the class \<^verbatim>\<open>SizeCalc\<close>) is not among the
  sources. A unit is identified with the number of bytes it stands for, and
  \<^verbatim>\<open>convert_round_up\<close> converts a size from one unit to another, rounding up. The table
  \<^verbatim>\<open>UNITS_MAP\<close>, from lower-case unit names to a display name and a unit, and the text
  \<^verbatim>\<open>UNITS_LIST_STR\<close> are parameters.
\<close>

type_synonym unit_of_size = int

definition UNIT_KiB :: unit_of_size where
  "UNIT_KiB = 1024"

definition UNIT_GiB :: unit_of_size where
  "UNIT_GiB = 1024 ^ 3"

definition UNIT_TiB :: unit_of_size where
  "UNIT_TiB = 1024 ^ 4"

definition convert_round_up :: "int \<Rightarrow> unit_of_size \<Rightarrow> unit_of_size \<Rightarrow> int" where
  "convert_round_up size_in unit_in unit_out =
    (let byte_size = size_in * unit_in in
     if byte_size mod unit_out \<noteq> 0 then byte_size div unit_out + 1 else byte_size div unit_out)"

record size_calc =
  UNITS_MAP :: "(string \<times> string \<times> unit_of_size) list"
  UNITS_LIST_STR :: string

text \<open>
  \<^verbatim>\<open>re.match(r'(\d+)(\D*)', size_str)\<close>: the match starts at the first character; group 1 is
  the longest run of digits there (no match when it is empty), group 2 the longest run of
  characters after it that are not digits.
\<close>

definition parse_volume_size_to_kib :: "size_calc \<Rightarrow> string \<Rightarrow> error + int" where
  "parse_volume_size_to_kib sc size_str =
    (let group1 = takeWhile is_digit size_str;
         group2 = takeWhile (\<lambda>c. \<not> is_digit c) (dropWhile is_digit size_str)
     in if group1 = []
        then Inl (LinstorArgumentError
                    (''Size '' @ [CHR 0x27] @ size_str @ [CHR 0x27] @ '' is not a valid number''))
        else
          (let size_val = int_of_digits group1;
               unit_str = (if group2 = [] then ''GiB'' else group2)
           in case map_of (UNITS_MAP sc) (lower unit_str) of
                None \<Rightarrow>
                  Inl (LinstorArgumentError
                         ([CHR 0x22] @ unit_str @ [CHR 0x22] @ '' is not a valid unit!'' @ [CHR 0x0A] @
                          ''Valid units: '' @ UNITS_LIST_STR sc))
              | Some (name, unit) \<Rightarrow>
                  Inr (if unit \<noteq> UNIT_KiB then convert_round_up size_val unit UNIT_KiB
                       else size_val)))"

section \<open>Version strings\<close>

text \<open>
  \<^verbatim>\<open>distutils.version.StrictVersion\<close>: a version string is two or three runs of digits
  separated by dots, then optionally \<open>a\<close> or \<open>b\<close> and a run of digits (a pre-release); anything
  else raises \<^verbatim>\<open>ValueError\<close>. The pattern's \<^verbatim>\<open>$\<close> also accepts one newline at the
  end. The parsed value is the triple of numbers (the patch number defaults to 0) and the
  pre-release tag.
\<close>

type_synonym strict_version = "(int \<times> int \<times> int) \<times> (char \<times> int) option"

definition StrictVersion :: "string \<Rightarrow> error + strict_version" where
  "StrictVersion vstring =
    (let invalid = Inl (ValueError (''invalid version number '' @ [CHR 0x27] @ vstring @ [CHR 0x27]));
         s = (if vstring \<noteq> [] \<and> last vstring = CHR 0x0A then butlast vstring else vstring);
         major = takeWhile is_digit s;
         r1 = dropWhile is_digit s
     in if major = [] then invalid
        else (case r1 of
                [] \<Rightarrow> invalid
              | c1 # r2 \<Rightarrow>
                 (let minor = takeWhile is_digit r2;
                      r3 = dropWhile is_digit r2
                  in if c1 \<noteq> CHR ''.'' \<or> minor = [] then invalid
                     else
                      (let has_patch = (case r3 of [] \<Rightarrow> False
                                        | c3 # r4 \<Rightarrow> c3 = CHR ''.'' \<and> takeWhile is_digit r4 \<noteq> []);
                           patch = (if has_patch then takeWhile is_digit (tl r3) else []);
                           r5 = (if has_patch then dropWhile is_digit (tl r3) else r3);
                           numbers = (int_of_digits major, int_of_digits minor,
                                      if has_patch then int_of_digits patch else 0)
                       in case r5 of
                            [] \<Rightarrow> Inr (numbers, None)
                          | c5 # r6 \<Rightarrow>
                              if (c5 = CHR ''a'' \<or> c5 = CHR ''b'') \<and> r6 \<noteq> [] \<and> list_all is_digit r6
                              then Inr (numbers, Some (c5, int_of_digits r6))
                              else invalid))))"

text \<open>
  The order of \<^verbatim>\<open>StrictVersion._cmp\<close>: the number triples decide when they differ; with
  equal triples a pre-release is lower than the release, and two pre-releases compare by letter,
  then number.
\<close>

definition triple_less :: "int \<times> int \<times> int \<Rightarrow> int \<times> int \<times> int \<Rightarrow> bool" where
  "triple_less a b =
    (case a of (a1, a2, a3) \<Rightarrow> case b of (b1, b2, b3) \<Rightarrow>
       a1 < b1 \<or> (a1 = b1 \<and> (a2 < b2 \<or> (a2 = b2 \<and> a3 < b3))))"

definition prerelease_less :: "char \<times> int \<Rightarrow> char \<times> int \<Rightarrow> bool" where
  "prerelease_less x y =
    ((of_char (fst x) :: nat) < of_char (fst y) \<or> (fst x = fst y \<and> snd x < snd y))"

definition strict_version_less :: "strict_version \<Rightarrow> strict_version \<Rightarrow> bool" where
  "strict_version_less a b =
    (if fst a \<noteq> fst b then triple_less (fst a) (fst b)
     else (case (snd a, snd b) of
             (None, None) \<Rightarrow> False
           | (Some x, None) \<Rightarrow> True
           | (None, Some y) \<Rightarrow> False
           | (Some x, Some y) \<Rightarrow> prerelease_less x y))"

definition API_VERSION_MIN :: string where
  "API_VERSION_MIN = ''1.0.4''"

text \<open>
  Modelled from the spec: \<^verbatim>\<open>responses.py\<close> is not among the sources. The protocol
  version of the controller is the version string that the reply to the version query carries,
  here the field \<open>rest_api_version\<close> of the object a \<^verbatim>\<open>ControllerVersion\<close> wraps. Reading
  it from anything else raises.
\<close>

definition rest_api_version :: "response \<Rightarrow> error + string" where
  "rest_api_version v =
    (case v of Instance cls d \<Rightarrow>
       if cls \<noteq> ControllerVersion then Inl (AttributeError ''rest_api_version'')
       else (case d of
               JObj kvs \<Rightarrow>
                 (case map_of kvs ''rest_api_version'' of
                    Some (JStr ver) \<Rightarrow> Inr ver
                  | Some other \<Rightarrow> Inl (AttributeError ''startswith'')
                  | None \<Rightarrow> Inl (KeyError ''rest_api_version''))
             | other \<Rightarrow> Inl (TypeError ''rest_api_version'')))"

text \<open>
  The test of \<^verbatim>\<open>connect\<close> on the advertised version: \<open>Inr True\<close> when the client does
  not support it. The second operand of \<^verbatim>\<open>or\<close> is evaluated only when the first is false.
\<close>

definition version_unsupported :: "string \<Rightarrow> error + bool" where
  "version_unsupported ver =
    (if \<not> is_prefix ''1'' ver then Inr True
     else (case StrictVersion API_VERSION_MIN of
             Inl e \<Rightarrow> Inl e
           | Inr vmin \<Rightarrow>
              (case StrictVersion ver of
                 Inl e \<Rightarrow> Inl e
               | Inr v \<Rightarrow> Inr (strict_version_less v vmin))))"

section \<open>The network and the client's state\<close>

text \<open>
  A connection object of \<^verbatim>\<open>http.client\<close>: \<^verbatim>\<open>HTTPSConnection\<close> when \<open>is_https\<close>
  holds, \<^verbatim>\<open>HTTPConnection\<close> otherwise.
\<close>

record conn =
  is_https :: bool
  host :: string
  conn_port :: nat
  conn_timeout :: nat

text \<open>
  What the client does to the outside, in order: the three steps of the probe of
  \<^verbatim>\<open>has_linstor_https\<close> (on a connection of its own), the calls on the client's
  transport (\<open>Request\<close> holds the method, the path, the body and the token of the
  \<^verbatim>\<open>Authorization\<close> header), and the command line that the curl mode prints.
\<close>

datatype action =
    ProbeConnect string nat
  | ProbeRequest string nat
  | ProbeGetResponse string nat
  | Connect conn
  | Request conn string string "json option" "string option"
  | GetResponse conn
  | Close conn
  | PrintCurl string string "json option"

text \<open>
  The outcome of \<^verbatim>\<open>connect()\<close> and of \<^verbatim>\<open>request()\<close>: done, or a
  \<^verbatim>\<open>socket.error\<close> (\<^verbatim>\<open>socket.timeout\<close> is one of them) with its text. The outcome
  of \<^verbatim>\<open>getresponse()\<close> with the \<^verbatim>\<open>read()\<close> of the body: the response, a
  \<^verbatim>\<open>socket.timeout\<close>, another \<^verbatim>\<open>socket.error\<close>, or a \<^verbatim>\<open>BadStatusLine\<close>
  that is not a \<^verbatim>\<open>socket.error\<close>.
\<close>

datatype sock_result = SockOk | SockError string

datatype read_result =
    Received http_response
  | ReadTimeout
  | ReadSockError string
  | ReadBadStatusLine string

text \<open>
  The network decides each outcome from the history of actions, the last of which is the call
  that is answered.
\<close>

record network =
  on_connect :: "action list \<Rightarrow> sock_result"
  on_request :: "action list \<Rightarrow> sock_result"
  on_getresponse :: "action list \<Rightarrow> read_result"

text \<open>
  The attributes of a \<^verbatim>\<open>Linstor\<close> object. \<open>ctrl_host_list\<close> is the attribute that
  \<^verbatim>\<open>MultiLinstor\<close> adds: an object is a \<^verbatim>\<open>MultiLinstor\<close> when it has one.
\<close>

record linstor =
  ctrl_host :: string
  timeout :: nat
  keep_alive :: bool
  rest_conn :: "conn option"
  connected :: bool
  mode_curl :: bool
  ctrl_version :: "response option"
  username :: "string option"
  password :: "string option"
  allow_insecure :: bool
  ctrl_host_list :: "string list option"

definition Linstor_init :: "string \<Rightarrow> nat \<Rightarrow> bool \<Rightarrow> linstor" where
  "Linstor_init host_uri tmo ka =
    \<lparr>ctrl_host = host_uri, timeout = tmo, keep_alive = ka, rest_conn = None, connected = False,
     mode_curl = False, ctrl_version = None, username = None, password = None,
     allow_insecure = False, ctrl_host_list = None\<rparr>"

definition MultiLinstor_init :: "string list \<Rightarrow> nat \<Rightarrow> bool \<Rightarrow> error + linstor" where
  "MultiLinstor_init hosts tmo ka =
    (case hosts of
       [] \<Rightarrow> Inl IndexError
     | h # hs \<Rightarrow> Inr ((Linstor_init h tmo ka)\<lparr>ctrl_host_list := Some hosts\<rparr>))"

text \<open>Python's truth value of an attribute that is \<^verbatim>\<open>None\<close> or a string.\<close>

definition truthy :: "string option \<Rightarrow> bool" where
  "truthy v = (case v of None \<Rightarrow> False | Some x \<Rightarrow> x \<noteq> [])"

definition REST_PORT :: nat where
  "REST_PORT = 3370"

definition REST_HTTPS_PORT :: nat where
  "REST_HTTPS_PORT = 3371"

section \<open>The connection manager and the request dispatcher\<close>

text \<open>
  Every function takes the history of actions and returns it extended; a function that
  changes attributes of the object returns the object too, also when it raises.
\<close>

definition has_linstor_https ::
  "pylib \<Rightarrow> network \<Rightarrow> string \<Rightarrow> nat \<Rightarrow> action list \<Rightarrow> (error + nat option) \<times> action list" where
  "has_linstor_https lib net hostname_arg port_arg w =
    (let w1 = w @ [ProbeConnect hostname_arg port_arg] in
     case on_connect net w1 of
       SockError err \<Rightarrow> (Inr (Some 0), w1)
     | SockOk \<Rightarrow>
        (let w2 = w1 @ [ProbeRequest hostname_arg port_arg] in
         case on_request net w2 of
           SockError err \<Rightarrow> (Inr (Some 0), w2)
         | SockOk \<Rightarrow>
            (let w3 = w2 @ [ProbeGetResponse hostname_arg port_arg] in
             case on_getresponse net w3 of
               Received r \<Rightarrow>
                 if status r = 302
                 then (Inr (case location r of None \<Rightarrow> None | Some l \<Rightarrow> port (urlparse lib l)), w3)
                 else (Inr (Some 0), w3)
             | ReadTimeout \<Rightarrow> (Inr (Some 0), w3)
             | ReadSockError err \<Rightarrow> (Inr (Some 0), w3)
             | ReadBadStatusLine line \<Rightarrow> (Inl (BadStatusLine line), w3))))"

text \<open>
  \<^verbatim>\<open>connect\<close>, from the parse of the URI to the creation of the connection object: the
  choice between TLS and plaintext, and the refusal of credentials over plaintext.
\<close>

definition connect_transport ::
  "pylib \<Rightarrow> network \<Rightarrow> linstor \<Rightarrow> action list \<Rightarrow> (error + conn) \<times> action list" where
  "connect_transport lib net s w =
    (let u = urlparse lib (ctrl_host s);
         port0 = (case port u of None \<Rightarrow> REST_PORT | Some p \<Rightarrow> if p \<noteq> 0 then p else REST_PORT);
         choice =
           (if scheme u = ''linstor+ssl'' \<or> scheme u = ''https''
            then (Inr (True, if port u = None then REST_HTTPS_PORT else port0), w)
            else (case has_linstor_https lib net (hostname u) port0 w of
                    (Inl e, w1) \<Rightarrow> (Inl e, w1)
                  | (Inr https_port, w1) \<Rightarrow>
                     (case https_port of
                        None \<Rightarrow> (Inr (False, port0), w1)
                      | Some p \<Rightarrow> if p \<noteq> 0 then (Inr (True, p), w1) else (Inr (False, port0), w1))))
     in case choice of
          (Inl e, w1) \<Rightarrow> (Inl e, w1)
        | (Inr (https, port1), w1) \<Rightarrow>
            if https
            then (Inr \<lparr>is_https = True, host = hostname u, conn_port = port1, conn_timeout = timeout s\<rparr>, w1)
            else if truthy (username s) \<and> \<not> allow_insecure s
            then (Inl (LinstorNetworkError
                         ''Password authentication with HTTP not allowed, until explicitly enabled.'' []), w1)
            else (Inr \<lparr>is_https = False, host = hostname u, conn_port = port1, conn_timeout = timeout s\<rparr>, w1))"

text \<open>
  The first \<^verbatim>\<open>try\<close> block of \<^verbatim>\<open>_rest_request\<close> with its handler: the headers and the
  request. It returns the connection the request went to.
\<close>

definition request_try ::
  "network \<Rightarrow> linstor \<Rightarrow> action list \<Rightarrow> string \<Rightarrow> string \<Rightarrow> json option \<Rightarrow> (error + conn) \<times> action list" where
  "request_try net s w method path body =
    (case (if truthy (username s)
           then (case (username s, password s) of
                   (Some u, Some p) \<Rightarrow> Inr (Some (u @ '':'' @ p))
                 | other \<Rightarrow> Inl (TypeError ''can only concatenate str to str''))
           else Inr None) of
       Inl e \<Rightarrow> (Inl e, w)
     | Inr auth_token \<Rightarrow>
        (case rest_conn s of
           None \<Rightarrow> (Inl (AttributeError ''request''), w)
         | Some c \<Rightarrow>
            (let w1 = w @ [Request c method path body auth_token] in
             case on_request net w1 of
               SockOk \<Rightarrow> (Inr c, w1)
             | SockError err \<Rightarrow>
                 (Inl (LinstorNetworkError (''Unable to connect to '' @ ctrl_host s @ '': '' @ err) []), w1))))"

text \<open>What \<^verbatim>\<open>_rest_request\<close> makes of a response it has received.\<close>

definition response_result ::
  "pylib \<Rightarrow> apicall \<Rightarrow> string \<Rightarrow> string \<Rightarrow> http_response \<Rightarrow> error + response list" where
  "response_result lib apicall method path r =
    (if status r < 400 then convert_rest_response lib apicall r path
     else (case decode_response_data lib r of
             Inl e \<Rightarrow> Inl e
           | Inr error_data_raw \<Rightarrow>
              if error_data_raw \<noteq> []
              then (case json_loads lib error_data_raw of
                      Inl ve \<Rightarrow>
                        Inl (LinstorError (''Unable to parse REST json data: '' @ ve @ [CHR 0x0A] @
                                           ''Request-Uri: '' @ path))
                    | Inr error_data \<Rightarrow>
                       (case py_iter error_data of
                          Inl e \<Rightarrow> Inl e
                        | Inr xs \<Rightarrow> Inr (map (Instance ApiCallResponse) xs)))
              else Inl (LinstorError
                          (''REST api call method '' @ [CHR 0x27] @ method @ [CHR 0x27] @
                           '' to resource '' @ [CHR 0x27] @ path @ [CHR 0x27] @
                           '' returned status '' @ str_nat (status r) @ '' with no data.''))))"

definition version_error :: "string \<Rightarrow> error" where
  "version_error ver =
    LinstorApiCallError
      (''Client doesn'' @ [CHR 0x27] @ ''t support Controller rest api version: '' @ ver @
       ''; Minimal version needed: '' @ API_VERSION_MIN)"

text \<open>
  \<^verbatim>\<open>connect\<close>, from the assignment of the controller's version to the end: the version
  gate, which closes the transport and raises, or sets \<open>connected\<close>.
\<close>

definition connect_version_gate ::
  "response \<Rightarrow> linstor \<Rightarrow> action list \<Rightarrow> (error + bool) \<times> linstor \<times> action list" where
  "connect_version_gate v s2 w3 =
    (let s3 = s2\<lparr>ctrl_version := Some v\<rparr> in
     case rest_api_version v of
       Inl e \<Rightarrow> (Inl e, s3, w3)
     | Inr ver \<Rightarrow>
        (case version_unsupported ver of
           Inl e \<Rightarrow> (Inl e, s3, w3)
         | Inr True \<Rightarrow>
            (case rest_conn s3 of
               None \<Rightarrow> (Inl (AttributeError ''close''), s3, w3)
             | Some c3 \<Rightarrow> (Inl (version_error ver), s3, w3 @ [Close c3]))
         | Inr False \<Rightarrow> (Inr True, s3\<lparr>connected := True\<rparr>, w3)))"

text \<open>
  The functions that call each other. The first argument bounds the depth of the calls; where
  it is used up the call raises \<open>RecursionError\<close>, which no handler of the client catches.
  \<open>self_connect\<close> is the call \<^verbatim>\<open>self.connect()\<close> of \<^verbatim>\<open>_rest_request\<close>, which runs the
  method of the object's class and drops what it returns. \<open>MultiLinstor_connect_loop\<close> is the
  loop of \<^verbatim>\<open>MultiLinstor.connect\<close> over the hosts still to try, with the list
  \<^verbatim>\<open>conn_errors\<close>; it returns that list next to the result, so that its content when the
  loop is left can be stated.
\<close>

function (sequential) rest_request ::
    "nat \<Rightarrow> pylib \<Rightarrow> network \<Rightarrow> linstor \<Rightarrow> action list \<Rightarrow> apicall \<Rightarrow> string \<Rightarrow> string \<Rightarrow> json option \<Rightarrow> bool
       \<Rightarrow> (error + response list) \<times> linstor \<times> action list"
  and self_connect ::
    "nat \<Rightarrow> pylib \<Rightarrow> network \<Rightarrow> linstor \<Rightarrow> action list \<Rightarrow> (error + unit) \<times> linstor \<times> action list"
  and controller_version ::
    "nat \<Rightarrow> pylib \<Rightarrow> network \<Rightarrow> linstor \<Rightarrow> action list \<Rightarrow> (error + response) \<times> linstor \<times> action list"
  and Linstor_connect ::
    "nat \<Rightarrow> pylib \<Rightarrow> network \<Rightarrow> linstor \<Rightarrow> action list \<Rightarrow> (error + bool) \<times> linstor \<times> action list"
  and MultiLinstor_connect_loop ::
    "nat \<Rightarrow> pylib \<Rightarrow> network \<Rightarrow> string list \<Rightarrow> error list \<Rightarrow> linstor \<Rightarrow> action list
       \<Rightarrow> (error + bool option) \<times> error list \<times> linstor \<times> action list"
  and MultiLinstor_connect ::
    "nat \<Rightarrow> pylib \<Rightarrow> network \<Rightarrow> linstor \<Rightarrow> action list \<Rightarrow> (error + bool option) \<times> linstor \<times> action list"
where
  "rest_request 0 lib net s w apicall method path body reconnect = (Inl RecursionError, s, w)"
| "rest_request (Suc n) lib net s w apicall method path body reconnect =
    (if mode_curl s then (Inr [], s, w @ [PrintCurl method path body])
     else
      (case request_try net s w method path body of
         (Inl e, w1) \<Rightarrow> (Inl e, s, w1)
       | (Inr c, w1) \<Rightarrow>
          (let w2 = w1 @ [GetResponse c] in
           case on_getresponse net w2 of
             Received r \<Rightarrow> (response_result lib apicall method path r, s, w2)
           | ReadTimeout \<Rightarrow>
               (Inl (LinstorTimeoutError
                       (''Socket timeout, no data received for more than '' @ str_nat (timeout s) @ ''s.'')),
                s, w2)
           | ReadSockError err \<Rightarrow>
               if keep_alive s \<and> reconnect
               then (case self_connect n lib net s w2 of
                       (Inl e, s', w') \<Rightarrow> (Inl e, s', w')
                     | (Inr u, s', w') \<Rightarrow> rest_request n lib net s' w' apicall method path body False)
               else (Inl (LinstorNetworkError
                            (''Error reading response from '' @ ctrl_host s @ '': '' @ err) []), s, w2)
           | ReadBadStatusLine line \<Rightarrow>
               if keep_alive s \<and> reconnect
               then (case self_connect n lib net s w2 of
                       (Inl e, s', w') \<Rightarrow> (Inl e, s', w')
                     | (Inr u, s', w') \<Rightarrow> rest_request n lib net s' w' apicall method path body False)
               else (Inl (BadStatusLine line), s, w2))))"
| "self_connect 0 lib net s w = (Inl RecursionError, s, w)"
| "self_connect (Suc n) lib net s w =
    (case ctrl_host_list s of
       None \<Rightarrow>
         (case Linstor_connect n lib net s w of
            (Inl e, s', w') \<Rightarrow> (Inl e, s', w')
          | (Inr b, s', w') \<Rightarrow> (Inr (), s', w'))
     | Some hosts \<Rightarrow>
         (case MultiLinstor_connect n lib net s w of
            (Inl e, s', w') \<Rightarrow> (Inl e, s', w')
          | (Inr b, s', w') \<Rightarrow> (Inr (), s', w')))"
| "controller_version 0 lib net s w = (Inl RecursionError, s, w)"
| "controller_version (Suc n) lib net s w =
    (case rest_request n lib net s w API_VERSION ''GET'' ''/v1/controller/version'' None True of
       (Inl e, s', w') \<Rightarrow> (Inl e, s', w')
     | (Inr [], s', w') \<Rightarrow> (Inl IndexError, s', w')
     | (Inr (v # vs), s', w') \<Rightarrow> (Inr v, s', w'))"
| "Linstor_connect 0 lib net s w = (Inl RecursionError, s, w)"
| "Linstor_connect (Suc n) lib net s w =
    (if mode_curl s then (Inr True, s\<lparr>connected := True\<rparr>, w)
     else
      (case connect_transport lib net s w of
         (Inl e, w1) \<Rightarrow> (Inl e, s, w1)
       | (Inr c, w1) \<Rightarrow>
          (let s1 = s\<lparr>rest_conn := Some c\<rparr>;
               w2 = w1 @ [Connect c]
           in case on_connect net w2 of
                SockError err \<Rightarrow>
                  (Inl (LinstorNetworkError (''Unable to connect to '' @ ctrl_host s1 @ '': '' @ err) []),
                   s1, w2)
              | SockOk \<Rightarrow>
                 (case controller_version n lib net s1 w2 of
                    (Inl e, s2, w3) \<Rightarrow> (Inl e, s2, w3)
                  | (Inr v, s2, w3) \<Rightarrow> connect_version_gate v s2 w3))))"
| "MultiLinstor_connect_loop n lib net [] conn_errors s w =
    (case ctrl_host_list s of
       None \<Rightarrow> (Inl (AttributeError ''_ctrl_host_list''), conn_errors, s, w)
     | Some hosts \<Rightarrow>
         if length conn_errors = length hosts
         then (Inl (LinstorNetworkError ''Unable to connect to any of the given controller hosts.''
                      conn_errors), conn_errors, s, w)
         else (Inr None, conn_errors, s, w))"
| "MultiLinstor_connect_loop 0 lib net (h # hs) conn_errors s w =
    (Inl RecursionError, conn_errors, s\<lparr>ctrl_host := h\<rparr>, w)"
| "MultiLinstor_connect_loop (Suc n) lib net (h # hs) conn_errors s w =
    (case Linstor_connect n lib net (s\<lparr>ctrl_host := h\<rparr>) w of
       (Inr b, s', w') \<Rightarrow> (Inr (Some b), conn_errors, s', w')
     | (Inl (LinstorNetworkError msg causes), s', w') \<Rightarrow>
         MultiLinstor_connect_loop (Suc n) lib net hs
           (conn_errors @ [LinstorNetworkError msg causes]) s' w'
     | (Inl e, s', w') \<Rightarrow> (Inl e, conn_errors, s', w'))"
| "MultiLinstor_connect 0 lib net s w = (Inl RecursionError, s, w)"
| "MultiLinstor_connect (Suc n) lib net s w =
    (case ctrl_host_list s of
       None \<Rightarrow> (Inl (AttributeError ''_ctrl_host_list''), s, w)
     | Some hosts \<Rightarrow>
         (case MultiLinstor_connect_loop n lib net hosts [] s w of
            (r, conn_errors, s', w') \<Rightarrow> (r, s', w')))"
  by pat_completeness auto
termination
  by (relation "measures
        [case_sum (case_sum fst (case_sum fst fst)) (case_sum fst (case_sum fst fst)),
         case_sum (\<lambda>x. 0)
           (case_sum (\<lambda>x. 0) (case_sum (\<lambda>x. length (fst (snd (snd (snd x))))) (\<lambda>x. 0)))]")
    simp_all

section \<open>Relations used in the statements\<close>

text \<open>
  The attributes that no call of the connection manager or the dispatcher writes.
\<close>

definition same_config :: "linstor \<Rightarrow> linstor \<Rightarrow> bool" where
  "same_config s s' =
    (mode_curl s' = mode_curl s \<and> keep_alive s' = keep_alive s \<and> timeout s' = timeout s \<and>
     username s' = username s \<and> password s' = password s \<and>
     allow_insecure s' = allow_insecure s \<and> ctrl_host_list s' = ctrl_host_list s)"

text \<open>
  A relation between the object before and after a call that holds across every call: it is
  reflexive and transitive and holds across each of the four assignments the calls make.
\<close>

definition stable :: "(linstor \<Rightarrow> linstor \<Rightarrow> bool) \<Rightarrow> bool" where
  "stable R =
    ((\<forall>s. R s s) \<and> (\<forall>a b c. R a b \<longrightarrow> R b c \<longrightarrow> R a c) \<and>
     (\<forall>s c. R s (s\<lparr>rest_conn := Some c\<rparr>)) \<and>
     (\<forall>s. R s (s\<lparr>connected := True\<rparr>)) \<and>
     (\<forall>s v. R s (s\<lparr>ctrl_version := Some v\<rparr>)) \<and>
     (\<forall>s h. R s (s\<lparr>ctrl_host := h\<rparr>)))"

definition preserved :: "(linstor \<Rightarrow> linstor \<Rightarrow> bool) \<Rightarrow> nat \<Rightarrow> bool" where
  "preserved R n =
    ((\<forall>lib net s w a m p b rc r s' w'.
        rest_request n lib net s w a m p b rc = (r, s', w') \<longrightarrow> R s s') \<and>
     (\<forall>lib net s w r s' w'. self_connect n lib net s w = (r, s', w') \<longrightarrow> R s s') \<and>
     (\<forall>lib net s w r s' w'. controller_version n lib net s w = (r, s', w') \<longrightarrow> R s s') \<and>
     (\<forall>lib net s w r s' w'. Linstor_connect n lib net s w = (r, s', w') \<longrightarrow> R s s') \<and>
     (\<forall>lib net hs errs s w r errs' s' w'.
        MultiLinstor_connect_loop n lib net hs errs s w = (r, errs', s', w') \<longrightarrow> R s s') \<and>
     (\<forall>lib net s w r s' w'. MultiLinstor_connect n lib net s w = (r, s', w') \<longrightarrow> R s s'))"

text \<open>Once the object has a transport, it keeps having one.\<close>

definition has_transport_after :: "linstor \<Rightarrow> linstor \<Rightarrow> bool" where
  "has_transport_after s s' = (rest_conn s = None \<or> rest_conn s' \<noteq> None)"

text \<open>What \<^verbatim>\<open>except LinstorNetworkError\<close> catches.\<close>

definition is_network_error :: "error \<Rightarrow> bool" where
  "is_network_error e = (case e of LinstorNetworkError msg causes \<Rightarrow> True | other \<Rightarrow> False)"

text \<open>
  Each endpoint of a list, tried in the order of the list by \<^verbatim>\<open>Linstor.connect\<close>, fails
  with a network error: the result holds the errors in that order and the object and the
  history after the last of them.
\<close>

fun all_fail ::
  "nat \<Rightarrow> pylib \<Rightarrow> network \<Rightarrow> string list \<Rightarrow> linstor \<Rightarrow> action list
     \<Rightarrow> (error list \<times> linstor \<times> action list) option" where
  "all_fail n lib net [] s w = Some ([], s, w)"
| "all_fail n lib net (h # hs) s w =
    (case Linstor_connect n lib net (s\<lparr>ctrl_host := h\<rparr>) w of
       (Inr b, s', w') \<Rightarrow> None
     | (Inl e, s', w') \<Rightarrow>
         if is_network_error e
         then (case all_fail n lib net hs s' w' of
                 None \<Rightarrow> None
               | Some (es, s'', w'') \<Rightarrow> Some (e # es, s'', w''))
         else None)"


section \<open>Example inputs\<close>

text \<open>
  A stand-in for the library, used where a property is run on a concrete input: its URI and
  JSON parsers know the few texts listed, its decompressor none.
\<close>

definition example_uris :: "(string \<times> url) list" where
  "example_uris =
    [(''https://ctrl'', \<lparr>scheme = ''https'', hostname = ''ctrl'', port = None\<rparr>),
     (''linstor://ctrl'', \<lparr>scheme = ''linstor'', hostname = ''ctrl'', port = None\<rparr>),
     (''https://a'', \<lparr>scheme = ''https'', hostname = ''a'', port = None\<rparr>),
     (''https://b'', \<lparr>scheme = ''https'', hostname = ''b'', port = None\<rparr>),
     (''linstor://a'', \<lparr>scheme = ''linstor'', hostname = ''a'', port = None\<rparr>)]"

definition example_bodies :: "(string \<times> json) list" where
  "example_bodies =
    [(''[{ret_code:1},{ret_code:2}]'',
      JArr [JObj [(''ret_code'', JInt 1)], JObj [(''ret_code'', JInt 2)]]),
     (''{rest_api_version:1.0.4}'', JObj [(''rest_api_version'', JStr ''1.0.4'')]),
     (''{rest_api_version:1.0.3}'', JObj [(''rest_api_version'', JStr ''1.0.3'')]),
     (''{rest_api_version:2.0.0}'', JObj [(''rest_api_version'', JStr ''2.0.0'')])]"

definition example_lib :: pylib where
  "example_lib =
    \<lparr>urlparse = (\<lambda>u. case map_of example_uris u of
                        None \<Rightarrow> \<lparr>scheme = [], hostname = [], port = None\<rparr>
                      | Some parsed \<Rightarrow> parsed),
     json_loads = (\<lambda>s. case map_of example_bodies s of
                          None \<Rightarrow> Inl ''No JSON object could be decoded''
                        | Some j \<Rightarrow> Inr j),
     zlib_decompress = (\<lambda>s. None)\<rparr>"

definition example_size_calc :: size_calc where
  "example_size_calc =
    \<lparr>UNITS_MAP = [(''kib'', ''KiB'', UNIT_KiB), (''gib'', ''GiB'', UNIT_GiB), (''tib'', ''TiB'', UNIT_TiB)],
     UNITS_LIST_STR = ''KiB, GiB, TiB''\<rparr>"

definition example_conn :: conn where
  "example_conn = \<lparr>is_https = True, host = ''ctrl'', conn_port = 3371, conn_timeout = 300\<rparr>"

definition example_client :: linstor where
  "example_client = (Linstor_init ''https://ctrl'' 300 False)\<lparr>rest_conn := Some example_conn, connected := True\<rparr>"

definition net_replying :: "http_response \<Rightarrow> network" where
  "net_replying r = \<lparr>on_connect = (\<lambda>h. SockOk), on_request = (\<lambda>h. SockOk), on_getresponse = (\<lambda>h. Received r)\<rparr>"

text \<open>The path of the latest request in a history.\<close>

definition last_request_path :: "action list \<Rightarrow> string" where
  "last_request_path h =
    foldl (\<lambda>acc a. case a of Request c m p b t \<Rightarrow> p | other \<Rightarrow> acc) [] h"

definition version_reply :: "string \<Rightarrow> http_response" where
  "version_reply ver =
    \<lparr>status = 200, content_encoding = None, location = None,
     data = ''{rest_api_version:'' @ ver @ ''}''\<rparr>"

text \<open>
  A network where every connection is accepted and every request goes out; the version query
  is answered with version 1.0.4, and the read of every other reply ends the given way.
\<close>

definition net_failing_reads :: "read_result \<Rightarrow> network" where
  "net_failing_reads failure =
    \<lparr>on_connect = (\<lambda>h. SockOk),
     on_request = (\<lambda>h. SockOk),
     on_getresponse = (\<lambda>h. if last_request_path h = ''/v1/controller/version''
                             then Received (version_reply ''1.0.4'') else failure)\<rparr>"

definition example_keep_alive_client :: linstor where
  "example_keep_alive_client = example_client\<lparr>keep_alive := True\<rparr>"

definition example_fresh_client :: linstor where
  "example_fresh_client = Linstor_init ''https://ctrl'' 300 False"

text \<open>The number of reads in a history.\<close>

definition reads_so_far :: "action list \<Rightarrow> nat" where
  "reads_so_far h = length (filter (\<lambda>a. case a of GetResponse c \<Rightarrow> True | other \<Rightarrow> False) h)"

text \<open>
  A controller that answers the first read with version 1.0.4 and every later one with
  version 1.0.3.
\<close>

definition net_downgraded :: network where
  "net_downgraded =
    \<lparr>on_connect = (\<lambda>h. SockOk),
     on_request = (\<lambda>h. SockOk),
     on_getresponse = (\<lambda>h. if reads_so_far h \<le> 1 then Received (version_reply ''1.0.4'')
                             else Received (version_reply ''1.0.3''))\<rparr>"

text \<open>A client with credentials and a plaintext URI.\<close>

definition example_password_client :: linstor where
  "example_password_client =
    (Linstor_init ''linstor://ctrl'' 300 False)\<lparr>username := Some ''admin'', password := Some ''secret''\<rparr>"

definition conn_to :: "string \<Rightarrow> conn" where
  "conn_to h = \<lparr>is_https = True, host = h, conn_port = 3371, conn_timeout = 300\<rparr>"

text \<open>The host that the latest \<^verbatim>\<open>connect()\<close> of a history went to, and their number.\<close>

definition last_connect_host :: "action list \<Rightarrow> string" where
  "last_connect_host h =
    foldl (\<lambda>acc a. case a of Connect c \<Rightarrow> host c | other \<Rightarrow> acc) [] h"

definition connects_so_far :: "action list \<Rightarrow> nat" where
  "connects_so_far h = length (filter (\<lambda>a. case a of Connect c \<Rightarrow> True | other \<Rightarrow> False) h)"

text \<open>Host \<open>a\<close> refuses connections; every other host answers with version 1.0.4.\<close>

definition net_a_down :: network where
  "net_a_down =
    \<lparr>on_connect = (\<lambda>h. if last_connect_host h = ''a'' then SockError ''Connection refused'' else SockOk),
     on_request = (\<lambda>h. SockOk),
     on_getresponse = (\<lambda>h. Received (version_reply ''1.0.4''))\<rparr>"

definition net_all_down :: network where
  "net_all_down =
    \<lparr>on_connect = (\<lambda>h. SockError ''Connection refused''),
     on_request = (\<lambda>h. SockOk),
     on_getresponse = (\<lambda>h. Received (version_reply ''1.0.4''))\<rparr>"

text \<open>
  Host \<open>a\<close> accepts the first connection and refuses later ones, host \<open>b\<close> accepts; the first
  read ends with a socket error and every later one gives version 1.0.4.
\<close>

definition net_flapping :: network where
  "net_flapping =
    \<lparr>on_connect = (\<lambda>h. if last_connect_host h = ''a'' \<and> 1 < connects_so_far h
                         then SockError ''Connection refused'' else SockOk),
     on_request = (\<lambda>h. SockOk),
     on_getresponse = (\<lambda>h. if reads_so_far h \<le> 1 then ReadSockError ''reset''
                             else Received (version_reply ''1.0.4''))\<rparr>"

definition example_failover_client :: "bool \<Rightarrow> linstor" where
  "example_failover_client ka =
    (Linstor_init ''https://a'' 300 ka)\<lparr>ctrl_host_list := Some [''https://a'', ''https://b'']\<rparr>"

definition example_password_failover_client :: linstor where
  "example_password_failover_client =
    (Linstor_init ''linstor://a'' 300 False)
      \<lparr>username := Some ''admin'', password := Some ''secret'',
       ctrl_host_list := Some [''linstor://a'', ''https://b'']\<rparr>"

definition example_version :: "string \<Rightarrow> response" where
  "example_version ver = Instance ControllerVersion (JObj [(''rest_api_version'', JStr ver)])"

section \<open>Properties of the response classifier\<close>

lemma response_class_of_cases:
  "response_class_of apicall \<in> set [ApiCallResponse, ErrorReport] \<longleftrightarrow>
     apicall = API_REQ_ERROR_REPORTS \<or> (\<exists>s. apicall = API_OTHER s)"
  by (cases apicall) (simp_all add: response_class_of_def APICALL2RESPONSE_def)

text \<open>
  C8. An operation identifier that the dispatch table does not map (so that the generic
  status reply is taken) or maps to the status reply or the error report: when the body decodes
  and parses to a JSON array, the result is one instance of that class per element of the
  array, in the order of the array.
\<close>

theorem generic_class_wraps_each_element:
  assumes dec: "decode_response_data lib r = Inr d"
    and parsed: "json_loads lib d = Inr (JArr xs)"
    and generic: "map_of APICALL2RESPONSE apicall = None \<and> cls = ApiCallResponse \<or>
                  map_of APICALL2RESPONSE apicall = Some cls \<and> (cls = ApiCallResponse \<or> cls = ErrorReport)"
  shows "convert_rest_response lib apicall r path = Inr (map (Instance cls) xs)"
proof -
  from generic have cls: "response_class_of apicall = cls"
    by (auto simp: response_class_of_def)
  from generic have "cls = ApiCallResponse \<or> cls = ErrorReport"
    by auto
  then show ?thesis
    using dec parsed cls by (auto simp: convert_rest_response_def)
qed

theorem generic_class_wraps_each_element_witness:
  "convert_rest_response example_lib (API_OTHER ''CrtNode'')
     \<lparr>status = 200, content_encoding = None, location = None, data = ''[{ret_code:1},{ret_code:2}]''\<rparr>
     ''/v1/nodes'' =
   Inr [Instance ApiCallResponse (JObj [(''ret_code'', JInt 1)]),
        Instance ApiCallResponse (JObj [(''ret_code'', JInt 2)])]"
  using generic_class_wraps_each_element
    [of example_lib
        "\<lparr>status = 200, content_encoding = None, location = None, data = ''[{ret_code:1},{ret_code:2}]''\<rparr>"
        "''[{ret_code:1},{ret_code:2}]''"
        "[JObj [(''ret_code'', JInt 1)], JObj [(''ret_code'', JInt 2)]]"
        "API_OTHER ''CrtNode''" ApiCallResponse "''/v1/nodes''"]
  by (simp add: decode_response_data_def example_lib_def example_bodies_def APICALL2RESPONSE_def)

text \<open>
  C1. An operation identifier mapped to a structured response class: what the code tests on a
  parsed JSON array is whether the string \<open>ret_code\<close> is itself an element of the array. An
  array of status replies (objects that carry the field \<open>ret_code\<close>) does not have that string
  among its elements, so it is wrapped whole, as one instance of the structured class, and not
  element by element.
\<close>

theorem structured_class_tests_membership_in_array:
  assumes dec: "decode_response_data lib r = Inr d"
    and parsed: "json_loads lib d = Inr (JArr xs)"
    and structured: "map_of APICALL2RESPONSE apicall = Some cls"
      "cls \<noteq> ApiCallResponse" "cls \<noteq> ErrorReport"
  shows "convert_rest_response lib apicall r path =
           (if JStr ''ret_code'' \<in> set xs then Inr (map (Instance ApiCallResponse) xs)
            else Inr [Instance cls (JArr xs)])"
proof -
  from structured have "response_class_of apicall = cls"
    by (simp add: response_class_of_def)
  then show ?thesis
    using dec parsed structured by (simp add: convert_rest_response_def)
qed

theorem structured_class_tests_membership_in_array_witness:
  "convert_rest_response example_lib API_LST_NODE
     \<lparr>status = 200, content_encoding = None, location = None, data = ''[{ret_code:1},{ret_code:2}]''\<rparr>
     ''/v1/nodes'' =
   Inr [Instance NodeListResponse
          (JArr [JObj [(''ret_code'', JInt 1)], JObj [(''ret_code'', JInt 2)]])]"
  using structured_class_tests_membership_in_array
    [of example_lib
        "\<lparr>status = 200, content_encoding = None, location = None, data = ''[{ret_code:1},{ret_code:2}]''\<rparr>"
        "''[{ret_code:1},{ret_code:2}]''"
        "[JObj [(''ret_code'', JInt 1)], JObj [(''ret_code'', JInt 2)]]"
        API_LST_NODE NodeListResponse "''/v1/nodes''"]
  by (simp add: decode_response_data_def example_lib_def example_bodies_def APICALL2RESPONSE_def)

section \<open>Properties of the size parser\<close>

lemma convert_round_up_same: "u \<noteq> 0 \<Longrightarrow> convert_round_up v u u = v"
  by (simp add: convert_round_up_def)

lemma convert_round_up_ceiling:
  assumes "0 < uo"
  shows "uo * (convert_round_up v ui uo - 1) < v * ui \<and> v * ui \<le> uo * convert_round_up v ui uo"
proof -
  define b where "b = v * ui"
  have eq: "uo * (b div uo) + b mod uo = b" by simp
  have m: "0 \<le> b mod uo" "b mod uo < uo" using assms by simp_all
  have "uo * ((if b mod uo \<noteq> 0 then b div uo + 1 else b div uo) - 1) < b \<and>
        b \<le> uo * (if b mod uo \<noteq> 0 then b div uo + 1 else b div uo)"
  proof (cases "b mod uo = 0")
    case True
    with eq have "uo * (b div uo) = b" by simp
    with True assms show ?thesis by (simp add: algebra_simps)
  next
    case False
    with m have p: "0 < b mod uo" by simp
    have "uo * (b div uo) < b" using eq p by linarith
    moreover have "b \<le> uo * (b div uo) + uo" using eq m by linarith
    ultimately show ?thesis using False by (simp add: algebra_simps)
  qed
  then show ?thesis unfolding b_def convert_round_up_def Let_def .
qed

lemma groups_of_digits_then_unit:
  assumes ds: "\<forall>c \<in> set ds. is_digit c" and u: "\<forall>c \<in> set u. \<not> is_digit c"
  shows "takeWhile is_digit (ds @ u) = ds"
    and "takeWhile (\<lambda>c. \<not> is_digit c) (dropWhile is_digit (ds @ u)) = u"
proof -
  have tu: "takeWhile is_digit u = []" using u by (cases u) simp_all
  have du: "dropWhile is_digit u = u" using u by (cases u) simp_all
  show "takeWhile is_digit (ds @ u) = ds" using ds tu by (simp add: takeWhile_append2)
  have "dropWhile is_digit (ds @ u) = u" using ds du by (simp add: dropWhile_append2)
  then show "takeWhile (\<lambda>c. \<not> is_digit c) (dropWhile is_digit (ds @ u)) = u"
    using u by simp
qed

lemma parse_digits_then_unit:
  assumes ds: "ds \<noteq> []" "\<forall>c \<in> set ds. is_digit c" and u: "\<forall>c \<in> set u. \<not> is_digit c"
  shows "parse_volume_size_to_kib sc (ds @ u) =
           (case map_of (UNITS_MAP sc) (lower (if u = [] then ''GiB'' else u)) of
              None \<Rightarrow>
                Inl (LinstorArgumentError
                       ([CHR 0x22] @ (if u = [] then ''GiB'' else u) @ [CHR 0x22] @
                        '' is not a valid unit!'' @ [CHR 0x0A] @ ''Valid units: '' @ UNITS_LIST_STR sc))
            | Some (name, unit) \<Rightarrow> Inr (convert_round_up (int_of_digits ds) unit UNIT_KiB))"
  using ds(1) groups_of_digits_then_unit [OF ds(2) u]
  by (auto simp: parse_volume_size_to_kib_def Let_def convert_round_up_same UNIT_KiB_def
      split: option.splits)

lemmas char_class_defs = is_digit_def lower_def lower_char_def int_of_digits_def digit_value_def

text \<open>
  C9. With a unit table that maps \<open>tib\<close> to the TiB unit and has no unit \<open>x\<close>: the input
  \<open>2TiB\<close> gives \<open>2 * 1024 ^ 3\<close> KiB and the input \<open>5x\<close> raises an argument error that names the
  unit. In general, for a run of digits \<open>ds\<close> followed by a run \<open>u\<close> of characters that are not
  digits, the unit looked up is \<open>u\<close> in lower case (\<open>GiB\<close> when \<open>u\<close> is empty); an unknown unit
  raises the argument error, and a known one gives the number scaled by the unit and converted
  to KiB, rounded up: the least count of KiB that holds that many bytes.
\<close>

theorem parse_volume_size_to_kib_scales_and_rounds_up:
  assumes tib: "map_of (UNITS_MAP sc) ''tib'' = Some (nm, UNIT_TiB)"
    and x: "map_of (UNITS_MAP sc) ''x'' = None"
    and ds: "ds \<noteq> []" "\<forall>c \<in> set ds. is_digit c"
    and u: "\<forall>c \<in> set u. \<not> is_digit c"
    and unit_str: "unit_str = (if u = [] then ''GiB'' else u)"
  shows "parse_volume_size_to_kib sc ''2TiB'' = Inr (2 * 1024 ^ 3) \<and>
         parse_volume_size_to_kib sc ''5x'' =
           Inl (LinstorArgumentError
                  ([CHR 0x22] @ ''x'' @ [CHR 0x22] @ '' is not a valid unit!'' @ [CHR 0x0A] @
                   ''Valid units: '' @ UNITS_LIST_STR sc)) \<and>
         (case map_of (UNITS_MAP sc) (lower unit_str) of
            None \<Rightarrow>
              parse_volume_size_to_kib sc (ds @ u) =
                Inl (LinstorArgumentError
                       ([CHR 0x22] @ unit_str @ [CHR 0x22] @ '' is not a valid unit!'' @ [CHR 0x0A] @
                        ''Valid units: '' @ UNITS_LIST_STR sc))
          | Some (name, unit) \<Rightarrow>
              (\<exists>kib. parse_volume_size_to_kib sc (ds @ u) = Inr kib \<and>
                     1024 * (kib - 1) < int_of_digits ds * unit \<and>
                     int_of_digits ds * unit \<le> 1024 * kib))"
proof -
  have a: "parse_volume_size_to_kib sc ''2TiB'' = Inr (2 * 1024 ^ 3)"
    using tib parse_digits_then_unit [of "''2''" "''TiB''" sc]
    by (simp add: char_class_defs convert_round_up_def UNIT_TiB_def UNIT_KiB_def)
  have b: "parse_volume_size_to_kib sc ''5x'' =
           Inl (LinstorArgumentError
                  ([CHR 0x22] @ ''x'' @ [CHR 0x22] @ '' is not a valid unit!'' @ [CHR 0x0A] @
                   ''Valid units: '' @ UNITS_LIST_STR sc))"
    using x parse_digits_then_unit [of "''5''" "''x''" sc]
    by (simp add: char_class_defs)
  have c: "(case map_of (UNITS_MAP sc) (lower unit_str) of
            None \<Rightarrow>
              parse_volume_size_to_kib sc (ds @ u) =
                Inl (LinstorArgumentError
                       ([CHR 0x22] @ unit_str @ [CHR 0x22] @ '' is not a valid unit!'' @ [CHR 0x0A] @
                        ''Valid units: '' @ UNITS_LIST_STR sc))
          | Some (name, unit) \<Rightarrow>
              (\<exists>kib. parse_volume_size_to_kib sc (ds @ u) = Inr kib \<and>
                     1024 * (kib - 1) < int_of_digits ds * unit \<and>
                     int_of_digits ds * unit \<le> 1024 * kib))"
  proof (cases "map_of (UNITS_MAP sc) (lower unit_str)")
    case None
    then show ?thesis
      using parse_digits_then_unit [OF ds u, of sc] unit_str by simp
  next
    case (Some p)
    obtain name unit where p: "p = (name, unit)" by (cases p)
    have "parse_volume_size_to_kib sc (ds @ u) =
            Inr (convert_round_up (int_of_digits ds) unit UNIT_KiB)"
      using parse_digits_then_unit [OF ds u, of sc] unit_str Some p by simp
    moreover have "1024 * (convert_round_up (int_of_digits ds) unit UNIT_KiB - 1)
                     < int_of_digits ds * unit \<and>
                   int_of_digits ds * unit
                     \<le> 1024 * convert_round_up (int_of_digits ds) unit UNIT_KiB"
      using convert_round_up_ceiling [of UNIT_KiB "int_of_digits ds" unit]
      by (simp add: UNIT_KiB_def)
    ultimately show ?thesis using Some p by simp
  qed
  from a b c show ?thesis by blast
qed

theorem parse_volume_size_to_kib_scales_and_rounds_up_witness:
  "parse_volume_size_to_kib example_size_calc ''2TiB'' = Inr 2147483648 \<and>
   parse_volume_size_to_kib example_size_calc ''5x'' =
     Inl (LinstorArgumentError
            ([CHR 0x22] @ ''x'' @ [CHR 0x22] @ '' is not a valid unit!'' @ [CHR 0x0A] @
             ''Valid units: KiB, GiB, TiB'')) \<and>
   (\<exists>kib. parse_volume_size_to_kib example_size_calc ''3'' = Inr kib \<and>
          1024 * (kib - 1) < 3 * 1024 ^ 3 \<and> 3 * 1024 ^ 3 \<le> 1024 * kib)"
  using parse_volume_size_to_kib_scales_and_rounds_up
    [of example_size_calc "''TiB''" "''3''" "[]" "''GiB''"]
  by (simp add: example_size_calc_def char_class_defs UNIT_GiB_def)

section \<open>Properties of the request dispatcher\<close>




subsection \<open>The paths through the dispatcher and through connect\<close>

lemma rest_request_curl:
  "mode_curl s \<Longrightarrow>
   rest_request (Suc n) lib net s w apicall method path body reconnect =
     (Inr [], s, w @ [PrintCurl method path body])"
  by simp

lemma rest_request_not_sent:
  "\<not> mode_curl s \<Longrightarrow> request_try net s w method path body = (Inl e, w1) \<Longrightarrow>
   rest_request (Suc n) lib net s w apicall method path body reconnect = (Inl e, s, w1)"
  by simp

lemma rest_request_received:
  "\<not> mode_curl s \<Longrightarrow> request_try net s w method path body = (Inr c, w1) \<Longrightarrow>
   on_getresponse net (w1 @ [GetResponse c]) = Received r \<Longrightarrow>
   rest_request (Suc n) lib net s w apicall method path body reconnect =
     (response_result lib apicall method path r, s, w1 @ [GetResponse c])"
  by simp

lemma rest_request_timeout:
  "\<not> mode_curl s \<Longrightarrow> request_try net s w method path body = (Inr c, w1) \<Longrightarrow>
   on_getresponse net (w1 @ [GetResponse c]) = ReadTimeout \<Longrightarrow>
   rest_request (Suc n) lib net s w apicall method path body reconnect =
     (Inl (LinstorTimeoutError
             (''Socket timeout, no data received for more than '' @ str_nat (timeout s) @ ''s.'')),
      s, w1 @ [GetResponse c])"
  by simp

lemma rest_request_read_error_final:
  "\<not> mode_curl s \<Longrightarrow> request_try net s w method path body = (Inr c, w1) \<Longrightarrow>
   on_getresponse net (w1 @ [GetResponse c]) = ReadSockError err \<Longrightarrow>
   \<not> (keep_alive s \<and> reconnect) \<Longrightarrow>
   rest_request (Suc n) lib net s w apicall method path body reconnect =
     (Inl (LinstorNetworkError (''Error reading response from '' @ ctrl_host s @ '': '' @ err) []),
      s, w1 @ [GetResponse c])"
  by (auto simp: Let_def)

lemma rest_request_bad_status_final:
  "\<not> mode_curl s \<Longrightarrow> request_try net s w method path body = (Inr c, w1) \<Longrightarrow>
   on_getresponse net (w1 @ [GetResponse c]) = ReadBadStatusLine line \<Longrightarrow>
   \<not> (keep_alive s \<and> reconnect) \<Longrightarrow>
   rest_request (Suc n) lib net s w apicall method path body reconnect =
     (Inl (BadStatusLine line), s, w1 @ [GetResponse c])"
  by (auto simp: Let_def)

lemma rest_request_retry:
  "\<not> mode_curl s \<Longrightarrow> request_try net s w method path body = (Inr c, w1) \<Longrightarrow>
   on_getresponse net (w1 @ [GetResponse c]) = ReadSockError err \<or>
   on_getresponse net (w1 @ [GetResponse c]) = ReadBadStatusLine line \<Longrightarrow>
   keep_alive s \<Longrightarrow> reconnect \<Longrightarrow>
   rest_request (Suc n) lib net s w apicall method path body reconnect =
     (case self_connect n lib net s (w1 @ [GetResponse c]) of
        (Inl e, s', w') \<Rightarrow> (Inl e, s', w')
      | (Inr u, s', w') \<Rightarrow> rest_request n lib net s' w' apicall method path body False)"
  by (auto simp: Let_def)

lemma Linstor_connect_curl:
  "mode_curl s \<Longrightarrow> Linstor_connect (Suc n) lib net s w = (Inr True, s\<lparr>connected := True\<rparr>, w)"
  by simp

lemma Linstor_connect_no_transport:
  "\<not> mode_curl s \<Longrightarrow> connect_transport lib net s w = (Inl e, w1) \<Longrightarrow>
   Linstor_connect (Suc n) lib net s w = (Inl e, s, w1)"
  by simp

lemma Linstor_connect_refused:
  "\<not> mode_curl s \<Longrightarrow> connect_transport lib net s w = (Inr c, w1) \<Longrightarrow>
   on_connect net (w1 @ [Connect c]) = SockError err \<Longrightarrow>
   Linstor_connect (Suc n) lib net s w =
     (Inl (LinstorNetworkError (''Unable to connect to '' @ ctrl_host s @ '': '' @ err) []),
      s\<lparr>rest_conn := Some c\<rparr>, w1 @ [Connect c])"
  by simp

lemma Linstor_connect_opened:
  "\<not> mode_curl s \<Longrightarrow> connect_transport lib net s w = (Inr c, w1) \<Longrightarrow>
   on_connect net (w1 @ [Connect c]) = SockOk \<Longrightarrow>
   Linstor_connect (Suc n) lib net s w =
     (case controller_version n lib net (s\<lparr>rest_conn := Some c\<rparr>) (w1 @ [Connect c]) of
        (Inl e, s2, w3) \<Rightarrow> (Inl e, s2, w3)
      | (Inr v, s2, w3) \<Rightarrow> connect_version_gate v s2 w3)"
  by simp

lemma rest_request_shape:
  assumes eq: "rest_request (Suc n) lib net s w apicall method path body reconnect = (r, s', w')"
  shows "s' = s \<or>
         (keep_alive s \<and> reconnect \<and>
          (\<exists>w2 r2 s2 w2'. self_connect n lib net s w2 = (r2, s2, w2') \<and>
             (case r2 of
                Inl e \<Rightarrow> (r, s', w') = (Inl e, s2, w2')
              | Inr u \<Rightarrow> rest_request n lib net s2 w2' apicall method path body False = (r, s', w'))))"
proof (cases "mode_curl s")
  case True
  with eq show ?thesis by simp
next
  case nc: False
  obtain x w1 where rt: "request_try net s w method path body = (x, w1)"
    by (cases "request_try net s w method path body")
  show ?thesis
  proof (cases x)
    case (Inl e)
    with eq rest_request_not_sent [OF nc rt [unfolded Inl]] show ?thesis by simp
  next
    case (Inr c)
    note rt' = rt [unfolded Inr]
    let ?w2 = "w1 @ [GetResponse c]"
    have retry: ?thesis
      if rd: "on_getresponse net ?w2 = ReadSockError err \<or> on_getresponse net ?w2 = ReadBadStatusLine line"
        and ka: "keep_alive s" "reconnect" for err line
    proof -
      obtain r2 s2 w2' where sc: "self_connect n lib net s ?w2 = (r2, s2, w2')"
        by (metis prod_cases3)
      from eq rest_request_retry [OF nc rt' rd ka] sc
      have "(case r2 of
                Inl e \<Rightarrow> (r, s', w') = (Inl e, s2, w2')
              | Inr u \<Rightarrow> rest_request n lib net s2 w2' apicall method path body False = (r, s', w'))"
        by (cases r2) auto
      with sc ka show ?thesis by blast
    qed
    show ?thesis
    proof (cases "on_getresponse net ?w2")
      case (Received resp)
      with eq rest_request_received [OF nc rt' Received] show ?thesis by simp
    next
      case ReadTimeout
      with eq rest_request_timeout [OF nc rt' ReadTimeout] show ?thesis by simp
    next
      case (ReadSockError err)
      show ?thesis
      proof (cases "keep_alive s \<and> reconnect")
        case True
        then show ?thesis using retry [of err] ReadSockError by blast
      next
        case False
        with eq rest_request_read_error_final [OF nc rt' ReadSockError False] show ?thesis by simp
      qed
    next
      case (ReadBadStatusLine line)
      show ?thesis
      proof (cases "keep_alive s \<and> reconnect")
        case True
        then show ?thesis using retry [of _ line] ReadBadStatusLine by blast
      next
        case False
        with eq rest_request_bad_status_final [OF nc rt' ReadBadStatusLine False] show ?thesis by simp
      qed
    qed
  qed
qed

lemma Linstor_connect_shape:
  assumes eq: "Linstor_connect (Suc n) lib net s w = (r, s', w')"
  shows "(mode_curl s \<and> r = Inr True \<and> s' = s\<lparr>connected := True\<rparr> \<and> w' = w) \<or>
         (\<not> mode_curl s \<and> (\<exists>e. r = Inl e) \<and> (s' = s \<or> (\<exists>c. s' = s\<lparr>rest_conn := Some c\<rparr>))) \<or>
         (\<not> mode_curl s \<and>
          (\<exists>c w2 rv s2 w3. controller_version n lib net (s\<lparr>rest_conn := Some c\<rparr>) w2 = (rv, s2, w3) \<and>
             (case rv of
                Inl e \<Rightarrow> (r, s', w') = (Inl e, s2, w3)
              | Inr v \<Rightarrow> connect_version_gate v s2 w3 = (r, s', w'))))"
proof (cases "mode_curl s")
  case True
  with eq show ?thesis by simp
next
  case nc: False
  obtain x w1 where ct: "connect_transport lib net s w = (x, w1)"
    by (cases "connect_transport lib net s w")
  show ?thesis
  proof (cases x)
    case (Inl e)
    with eq nc ct show ?thesis by auto
  next
    case (Inr c)
    note ct' = ct [unfolded Inr]
    show ?thesis
    proof (cases "on_connect net (w1 @ [Connect c])")
      case (SockError err)
      from eq Linstor_connect_refused [OF nc ct' SockError] nc show ?thesis
        by auto
    next
      case SockOk
      obtain rv s2 w3
        where v: "controller_version n lib net (s\<lparr>rest_conn := Some c\<rparr>) (w1 @ [Connect c]) = (rv, s2, w3)"
        by (metis prod_cases3)
      from eq Linstor_connect_opened [OF nc ct' SockOk] v
      have "(case rv of
                Inl e \<Rightarrow> (r, s', w') = (Inl e, s2, w3)
              | Inr v \<Rightarrow> connect_version_gate v s2 w3 = (r, s', w'))"
        by (cases rv) auto
      with v nc show ?thesis by blast
    qed
  qed
qed

lemma controller_version_shape:
  assumes "controller_version (Suc n) lib net s w = (r, s', w')"
  shows "\<exists>r0. rest_request n lib net s w API_VERSION ''GET'' ''/v1/controller/version'' None True
                = (r0, s', w')"
  using assms by (auto split: prod.splits sum.splits list.splits)

lemma self_connect_shape:
  assumes "self_connect (Suc n) lib net s w = (r, s', w')"
  shows "(\<exists>r0. Linstor_connect n lib net s w = (r0, s', w')) \<or>
         (\<exists>r0. MultiLinstor_connect n lib net s w = (r0, s', w'))"
  using assms by (auto split: option.splits prod.splits sum.splits)

lemma MultiLinstor_connect_shape:
  assumes "MultiLinstor_connect (Suc n) lib net s w = (r, s', w')"
  shows "s' = s \<or> (\<exists>hosts errs. MultiLinstor_connect_loop n lib net hosts [] s w = (r, errs, s', w'))"
  using assms by (auto split: option.splits prod.splits)

lemma stableD:
  assumes "stable R"
  shows "R s s" and "R a b \<Longrightarrow> R b c \<Longrightarrow> R a c"
    and "R s (s\<lparr>rest_conn := Some x\<rparr>)" and "R s (s\<lparr>connected := True\<rparr>)"
    and "R s (s\<lparr>ctrl_version := Some v\<rparr>)" and "R s (s\<lparr>ctrl_host := h\<rparr>)"
  using assms unfolding stable_def by blast+

lemma connect_version_gate_stable:
  assumes st: "stable R" and eq: "connect_version_gate v s2 w3 = (r, s', w')"
  shows "R s2 s'"
proof -
  from eq have "s' = s2\<lparr>ctrl_version := Some v\<rparr> \<or> s' = s2\<lparr>ctrl_version := Some v\<rparr>\<lparr>connected := True\<rparr>"
    by (auto simp: connect_version_gate_def Let_def split: sum.splits bool.splits option.splits)
  then show ?thesis
    using stableD(5) [OF st, of s2 v] stableD(4) [OF st, of "s2\<lparr>ctrl_version := Some v\<rparr>"]
      stableD(2) [OF st]
    by auto
qed

lemma loop_stable:
  assumes st: "stable R"
    and lc: "\<And>lib net s w r s' w'. Linstor_connect n lib net s w = (r, s', w') \<Longrightarrow> R s s'"
  shows "MultiLinstor_connect_loop (Suc n) lib net hs errs s w = (r, errs', s', w') \<Longrightarrow> R s s'"
proof (induct hs arbitrary: errs s w)
  case Nil
  then have "s' = s" by (auto split: option.splits if_splits)
  then show ?case by (simp add: stableD(1) [OF st])
next
  case (Cons h hs)
  obtain r1 s1 w1 where c: "Linstor_connect n lib net (s\<lparr>ctrl_host := h\<rparr>) w = (r1, s1, w1)"
    by (metis prod_cases3)
  have s1: "R s s1"
    by (rule stableD(2) [OF st stableD(6) [OF st] lc [OF c]])
  show ?case
  proof (cases "\<exists>msg causes. r1 = Inl (LinstorNetworkError msg causes)")
    case True
    then obtain msg causes where r1: "r1 = Inl (LinstorNetworkError msg causes)" by blast
    from Cons.prems c r1
    have "MultiLinstor_connect_loop (Suc n) lib net hs (errs @ [LinstorNetworkError msg causes]) s1 w1
            = (r, errs', s', w')" by simp
    from s1 Cons.hyps [OF this] show ?thesis by (rule stableD(2) [OF st])
  next
    case False
    with Cons.prems c have "s' = s1"
      by (cases r1) (auto split: error.splits)
    with s1 show ?thesis by simp
  qed
qed

lemma preserved_all:
  assumes st: "stable R"
  shows "preserved R n"
proof (induct n)
  case 0
  have "MultiLinstor_connect_loop 0 lib net hs errs s w = (r, errs', s', w') \<Longrightarrow> R s s'"
    for lib net hs errs s w r errs' s' w'
    by (cases hs) (auto simp: stableD(1) [OF st] stableD(6) [OF st] split: option.splits if_splits)
  then show ?case
    by (auto simp: preserved_def stableD(1) [OF st])
next
  case (Suc n)
  then have IH: "preserved R n" .
  have rr: "R s s'" if "rest_request n lib net s w a m p b rc = (r, s', w')"
    for lib net s w a m p b rc r s' w'
    by (rule IH [unfolded preserved_def, THEN conjunct1, rule_format, OF that])
  have sc: "R s s'" if "self_connect n lib net s w = (r, s', w')" for lib net s w r s' w'
    by (rule IH [unfolded preserved_def, THEN conjunct2, THEN conjunct1, rule_format, OF that])
  have cv: "R s s'" if "controller_version n lib net s w = (r, s', w')" for lib net s w r s' w'
    by (rule IH [unfolded preserved_def, THEN conjunct2, THEN conjunct2, THEN conjunct1,
          rule_format, OF that])
  have lc: "R s s'" if "Linstor_connect n lib net s w = (r, s', w')" for lib net s w r s' w'
    by (rule IH [unfolded preserved_def, THEN conjunct2, THEN conjunct2, THEN conjunct2,
          THEN conjunct1, rule_format, OF that])
  have lp: "R s s'" if "MultiLinstor_connect_loop n lib net hs errs s w = (r, errs', s', w')"
    for lib net hs errs s w r errs' s' w'
    by (rule IH [unfolded preserved_def, THEN conjunct2, THEN conjunct2, THEN conjunct2,
          THEN conjunct2, THEN conjunct1, rule_format, OF that])
  have mc: "R s s'" if "MultiLinstor_connect n lib net s w = (r, s', w')" for lib net s w r s' w'
    by (rule IH [unfolded preserved_def, THEN conjunct2, THEN conjunct2, THEN conjunct2,
          THEN conjunct2, THEN conjunct2, rule_format, OF that])
  have 1: "R s s'" if "rest_request (Suc n) lib net s w a m p b rc = (r, s', w')"
    for lib net s w a m p b rc r s' w'
  proof -
    from rest_request_shape [OF that] show ?thesis
    proof (elim disjE conjE exE)
      assume "s' = s"
      then show ?thesis by (simp add: stableD(1) [OF st])
    next
      fix w2 r2 s2 w2'
      assume c: "self_connect n lib net s w2 = (r2, s2, w2')"
        and t: "case r2 of Inl e \<Rightarrow> (r, s', w') = (Inl e, s2, w2')
                | Inr u \<Rightarrow> rest_request n lib net s2 w2' a m p b False = (r, s', w')"
      from sc [OF c] have s2: "R s s2" .
      show ?thesis
      proof (cases r2)
        case (Inl e)
        with t s2 show ?thesis by simp
      next
        case (Inr u)
        with t have "rest_request n lib net s2 w2' a m p b False = (r, s', w')" by simp
        from s2 rr [OF this] show ?thesis by (rule stableD(2) [OF st])
      qed
    qed
  qed
  have 2: "R s s'" if "self_connect (Suc n) lib net s w = (r, s', w')"
    for lib net s w r s' w'
    using self_connect_shape [OF that] by (auto dest: lc mc)
  have 3: "R s s'" if "controller_version (Suc n) lib net s w = (r, s', w')"
    for lib net s w r s' w'
    using controller_version_shape [OF that] by (auto dest: rr)
  have 4: "R s s'" if "Linstor_connect (Suc n) lib net s w = (r, s', w')"
    for lib net s w r s' w'
  proof -
    from Linstor_connect_shape [OF that] show ?thesis
    proof (elim disjE conjE exE)
      assume "s' = s\<lparr>connected := True\<rparr>"
      then show ?thesis by (simp add: stableD(4) [OF st])
    next
      assume "s' = s"
      then show ?thesis by (simp add: stableD(1) [OF st])
    next
      fix c assume "s' = s\<lparr>rest_conn := Some c\<rparr>"
      then show ?thesis by (simp add: stableD(3) [OF st])
    next
      fix c w2 rv s2 w3
      assume v: "controller_version n lib net (s\<lparr>rest_conn := Some c\<rparr>) w2 = (rv, s2, w3)"
        and t: "case rv of Inl e \<Rightarrow> (r, s', w') = (Inl e, s2, w3)
                | Inr v \<Rightarrow> connect_version_gate v s2 w3 = (r, s', w')"
      have s2: "R s s2"
        by (rule stableD(2) [OF st stableD(3) [OF st] cv [OF v]])
      show ?thesis
      proof (cases rv)
        case (Inl e)
        with t s2 show ?thesis by simp
      next
        case (Inr ver)
        with t have "connect_version_gate ver s2 w3 = (r, s', w')" by simp
        from s2 connect_version_gate_stable [OF st this] show ?thesis by (rule stableD(2) [OF st])
      qed
    qed
  qed
  have 5: "R s s'" if "MultiLinstor_connect_loop (Suc n) lib net hs errs s w = (r, errs', s', w')"
    for lib net hs errs s w r errs' s' w'
    using loop_stable [OF st lc that] .
  have 6: "R s s'" if "MultiLinstor_connect (Suc n) lib net s w = (r, s', w')"
    for lib net s w r s' w'
    using MultiLinstor_connect_shape [OF that] by (auto simp: stableD(1) [OF st] dest: lp)
  show ?case
    unfolding preserved_def using 1 2 3 4 5 6 by blast
qed

lemma stable_same_config: "stable same_config"
  by (simp add: stable_def same_config_def)



lemma stable_has_transport_after: "stable has_transport_after"
  by (auto simp: stable_def has_transport_after_def)

lemma self_connect_config:
  "self_connect n lib net s w = (r, s', w') \<Longrightarrow> same_config s s'"
  by (rule preserved_all [OF stable_same_config, unfolded preserved_def, THEN conjunct2,
        THEN conjunct1, rule_format])

lemma controller_version_keeps_transport:
  "controller_version n lib net s w = (r, s', w') \<Longrightarrow> rest_conn s = Some c \<Longrightarrow> \<exists>c'. rest_conn s' = Some c'"
  using preserved_all [OF stable_has_transport_after, unfolded preserved_def, THEN conjunct2,
        THEN conjunct2, THEN conjunct1, rule_format, of n lib net s w r s' w']
  by (auto simp: has_transport_after_def)

text \<open>
  C2. A call with keep-alive enabled whose request went out and whose first read ended with a
  socket error or with a \<open>BadStatusLine\<close>: the call runs \<open>self.connect()\<close> once. When
  that raises, the exception is the call's result and nothing more is sent. When it returns,
  the request is sent once more; if the read fails again, a socket error is raised as a
  \<open>LinstorNetworkError\<close> and a \<open>BadStatusLine\<close> is raised again as it is, and in both cases
  the object is left as the reconnect left it and the history ends with that one request and
  its read: no further connect, no further request.
\<close>

theorem reconnect_retries_once:
  assumes ka: "keep_alive s" and nc: "\<not> mode_curl s"
    and sent: "request_try net s w method path body = (Inr c, w1)"
    and failed: "on_getresponse net (w1 @ [GetResponse c]) = ReadSockError err \<or>
                 on_getresponse net (w1 @ [GetResponse c]) = ReadBadStatusLine line"
    and reconn: "self_connect (Suc n) lib net s (w1 @ [GetResponse c]) = (rc, s', w')"
  shows "(\<forall>e. rc = Inl e \<longrightarrow>
            rest_request (Suc (Suc n)) lib net s w apicall method path body True = (Inl e, s', w')) \<and>
         (\<forall>c' w1'. rc = Inr () \<and> request_try net s' w' method path body = (Inr c', w1') \<longrightarrow>
            (\<forall>err2. on_getresponse net (w1' @ [GetResponse c']) = ReadSockError err2 \<longrightarrow>
               rest_request (Suc (Suc n)) lib net s w apicall method path body True =
                 (Inl (LinstorNetworkError
                         (''Error reading response from '' @ ctrl_host s' @ '': '' @ err2) []),
                  s', w1' @ [GetResponse c'])) \<and>
            (\<forall>line2. on_getresponse net (w1' @ [GetResponse c']) = ReadBadStatusLine line2 \<longrightarrow>
               rest_request (Suc (Suc n)) lib net s w apicall method path body True =
                 (Inl (BadStatusLine line2), s', w1' @ [GetResponse c'])))"
proof -
  have step: "rest_request (Suc (Suc n)) lib net s w apicall method path body True =
                (case rc of
                   Inl e \<Rightarrow> (Inl e, s', w')
                 | Inr u \<Rightarrow> rest_request (Suc n) lib net s' w' apicall method path body False)"
    using rest_request_retry [OF nc sent failed ka, of True "Suc n" lib apicall] reconn
    by (cases rc) simp_all
  from self_connect_config [OF reconn] nc have nc': "\<not> mode_curl s'"
    by (simp add: same_config_def)
  show ?thesis
    using step rest_request_read_error_final [OF nc', where reconnect = False]
      rest_request_bad_status_final [OF nc', where reconnect = False]
    by auto
qed

lemma example_request_try_keep_alive:
  "request_try (net_failing_reads f) example_keep_alive_client w m p b =
     (Inr example_conn, w @ [Request example_conn m p b None])"
  by (simp add: request_try_def example_keep_alive_client_def example_client_def Linstor_init_def
        truthy_def net_failing_reads_def)

lemma example_reconnect:
  "self_connect (Suc (Suc (Suc (Suc 0)))) example_lib (net_failing_reads f) example_keep_alive_client
     [Request example_conn ''GET'' ''/v1/nodes'' None None, GetResponse example_conn] =
   (Inr (),
    example_keep_alive_client\<lparr>ctrl_version :=
      Some (Instance ControllerVersion (JObj [(''rest_api_version'', JStr ''1.0.4'')]))\<rparr>,
    [Request example_conn ''GET'' ''/v1/nodes'' None None, GetResponse example_conn,
     Connect example_conn,
     Request example_conn ''GET'' ''/v1/controller/version'' None None, GetResponse example_conn])"
  by (simp add: example_keep_alive_client_def example_client_def Linstor_init_def
        connect_transport_def example_lib_def example_uris_def example_bodies_def
        REST_HTTPS_PORT_def REST_PORT_def example_conn_def net_failing_reads_def
        request_try_def truthy_def last_request_path_def version_reply_def
        response_result_def convert_rest_response_def decode_response_data_def
        response_class_of_def APICALL2RESPONSE_def py_in.simps
        connect_version_gate_def rest_api_version_def version_unsupported_def
        StrictVersion_def API_VERSION_MIN_def char_class_defs strict_version_less_def
        triple_less_def Let_def)


lemmas example_run_defs =
  example_keep_alive_client_def example_client_def Linstor_init_def
  connect_transport_def example_lib_def example_uris_def example_bodies_def
  REST_HTTPS_PORT_def REST_PORT_def example_conn_def net_failing_reads_def
  request_try_def truthy_def last_request_path_def version_reply_def
  response_result_def convert_rest_response_def decode_response_data_def
  response_class_of_def APICALL2RESPONSE_def
  connect_version_gate_def rest_api_version_def version_unsupported_def
  StrictVersion_def API_VERSION_MIN_def char_class_defs strict_version_less_def
  triple_less_def Let_def

theorem reconnect_retries_once_witness:
  "rest_request (Suc (Suc (Suc (Suc (Suc 0))))) example_lib (net_failing_reads (ReadSockError ''reset''))
     example_keep_alive_client [] (API_OTHER ''LstNode'') ''GET'' ''/v1/nodes'' None True =
   (Inl (LinstorNetworkError ''Error reading response from https://ctrl: reset'' []),
    example_keep_alive_client\<lparr>ctrl_version :=
      Some (Instance ControllerVersion (JObj [(''rest_api_version'', JStr ''1.0.4'')]))\<rparr>,
    [Request example_conn ''GET'' ''/v1/nodes'' None None, GetResponse example_conn,
     Connect example_conn,
     Request example_conn ''GET'' ''/v1/controller/version'' None None, GetResponse example_conn,
     Request example_conn ''GET'' ''/v1/nodes'' None None, GetResponse example_conn])"
proof -
  let ?net = "net_failing_reads (ReadSockError ''reset'')"
  let ?s' = "example_keep_alive_client\<lparr>ctrl_version :=
      Some (Instance ControllerVersion (JObj [(''rest_api_version'', JStr ''1.0.4'')]))\<rparr>"
  let ?w' = "[Request example_conn ''GET'' ''/v1/nodes'' None None, GetResponse example_conn,
     Connect example_conn,
     Request example_conn ''GET'' ''/v1/controller/version'' None None, GetResponse example_conn]"
  have ka: "keep_alive example_keep_alive_client" and nc: "\<not> mode_curl example_keep_alive_client"
    by (simp_all add: example_keep_alive_client_def example_client_def Linstor_init_def)
  have sent: "request_try ?net example_keep_alive_client [] ''GET'' ''/v1/nodes'' None =
                (Inr example_conn, [Request example_conn ''GET'' ''/v1/nodes'' None None])"
    using example_request_try_keep_alive [of _ "[]"] by simp
  have failed: "on_getresponse ?net ([Request example_conn ''GET'' ''/v1/nodes'' None None] @ [GetResponse example_conn])
                  = ReadSockError ''reset'' \<or>
                on_getresponse ?net ([Request example_conn ''GET'' ''/v1/nodes'' None None] @ [GetResponse example_conn])
                  = ReadBadStatusLine []"
    by (simp add: net_failing_reads_def last_request_path_def)
  have reconn: "self_connect (Suc (Suc (Suc (Suc 0)))) example_lib ?net example_keep_alive_client
                  ([Request example_conn ''GET'' ''/v1/nodes'' None None] @ [GetResponse example_conn])
                  = (Inr (), ?s', ?w')"
    using example_reconnect by simp
  have resent: "request_try ?net ?s' ?w' ''GET'' ''/v1/nodes'' None =
                  (Inr example_conn, ?w' @ [Request example_conn ''GET'' ''/v1/nodes'' None None])"
    by (simp add: example_run_defs)
  have failed2: "on_getresponse ?net ((?w' @ [Request example_conn ''GET'' ''/v1/nodes'' None None]) @
                   [GetResponse example_conn]) = ReadSockError ''reset''"
    by (simp add: net_failing_reads_def last_request_path_def)
  have host: "ctrl_host ?s' = ''https://ctrl''"
    by (simp add: example_run_defs)
  from reconnect_retries_once [OF ka nc sent failed reconn, of "API_OTHER ''LstNode''"]
    resent failed2 host
  show ?thesis by simp
qed

text \<open>
  With keep-alive enabled and a \<open>BadStatusLine\<close> at both reads, the second one reaches the
  caller as a \<open>BadStatusLine\<close>, not as a network error.
\<close>

theorem second_bad_status_line_is_not_a_network_error:
  "rest_request (Suc (Suc (Suc (Suc (Suc 0))))) example_lib (net_failing_reads (ReadBadStatusLine []))
     example_keep_alive_client [] (API_OTHER ''LstNode'') ''GET'' ''/v1/nodes'' None True =
   (Inl (BadStatusLine []),
    example_keep_alive_client\<lparr>ctrl_version :=
      Some (Instance ControllerVersion (JObj [(''rest_api_version'', JStr ''1.0.4'')]))\<rparr>,
    [Request example_conn ''GET'' ''/v1/nodes'' None None, GetResponse example_conn,
     Connect example_conn,
     Request example_conn ''GET'' ''/v1/controller/version'' None None, GetResponse example_conn,
     Request example_conn ''GET'' ''/v1/nodes'' None None, GetResponse example_conn])"
  by (simp add: example_run_defs)

section \<open>Properties of the connection manager\<close>

lemma StrictVersion_min: "StrictVersion API_VERSION_MIN = Inr ((1, 0, 4), None)"
  by (simp add: StrictVersion_def API_VERSION_MIN_def char_class_defs)

lemma version_unsupported_other_family:
  "\<not> is_prefix ''1'' ver \<Longrightarrow> version_unsupported ver = Inr True"
  by (simp add: version_unsupported_def)


lemma connect_version_gate_unsupported:
  assumes "rest_api_version v = Inr ver" "version_unsupported ver = Inr True" "rest_conn s2 = Some c2"
  shows "connect_version_gate v s2 w3 =
           (Inl (version_error ver), s2\<lparr>ctrl_version := Some v\<rparr>, w3 @ [Close c2])"
  using assms by (simp add: connect_version_gate_def)

lemma Linstor_connect_gate:
  assumes nc: "\<not> mode_curl s"
    and transport: "connect_transport lib net s w = (Inr c, w1)"
    and accepted: "on_connect net (w1 @ [Connect c]) = SockOk"
    and advertised: "controller_version n lib net (s\<lparr>rest_conn := Some c\<rparr>) (w1 @ [Connect c]) = (Inr v, s2, w3)"
  shows "Linstor_connect (Suc n) lib net s w = connect_version_gate v s2 w3"
  using Linstor_connect_opened [OF nc transport accepted, where n = n] advertised by simp

lemma rest_request_no_keep_alive:
  assumes "\<not> keep_alive s" "rest_request n lib net s w a m p b rc = (r, s', w')"
  shows "s' = s"
proof (cases n)
  case 0
  with assms show ?thesis by simp
next
  case (Suc k)
  with assms rest_request_shape [of k lib net s w a m p b rc r s' w'] show ?thesis by auto
qed

lemma controller_version_no_keep_alive:
  assumes "\<not> keep_alive s" "controller_version n lib net s w = (r, s', w')"
  shows "s' = s"
proof (cases n)
  case 0
  with assms show ?thesis by simp
next
  case (Suc k)
  with assms controller_version_shape [of k lib net s w r s' w']
    rest_request_no_keep_alive [OF assms(1)]
  show ?thesis by blast
qed

text \<open>
  C4. A connect whose transport was opened and whose version query returned a version string
  that does not start with \<open>1\<close>, the leading digit of the client's own version: the connect
  closes the transport and raises the version error, whatever the numeric value of the
  advertised version.
\<close>

theorem other_major_version_is_refused:
  assumes nc: "\<not> mode_curl s"
    and transport: "connect_transport lib net s w = (Inr c, w1)"
    and accepted: "on_connect net (w1 @ [Connect c]) = SockOk"
    and advertised: "controller_version n lib net (s\<lparr>rest_conn := Some c\<rparr>) (w1 @ [Connect c]) = (Inr v, s2, w3)"
      "rest_api_version v = Inr ver"
    and family: "\<not> is_prefix ''1'' ver"
  shows "\<exists>c2. rest_conn s2 = Some c2 \<and>
           Linstor_connect (Suc n) lib net s w =
             (Inl (version_error ver), s2\<lparr>ctrl_version := Some v\<rparr>, w3 @ [Close c2])"
proof -
  from controller_version_keeps_transport [OF advertised(1)]
  obtain c2 where c2: "rest_conn s2 = Some c2" by auto
  from Linstor_connect_gate [OF nc transport accepted advertised(1)]
    connect_version_gate_unsupported [OF advertised(2) version_unsupported_other_family [OF family] c2]
  show ?thesis using c2 by simp
qed


lemma has_linstor_https_history:
  assumes "has_linstor_https lib net h p w = (r, w1)"
  shows "w1 = w @ [ProbeConnect h p] \<or> w1 = w @ [ProbeConnect h p, ProbeRequest h p] \<or>
         w1 = w @ [ProbeConnect h p, ProbeRequest h p, ProbeGetResponse h p]"
  using assms
  by (auto simp: has_linstor_https_def Let_def
        split: sock_result.splits read_result.splits if_splits)

text \<open>
  C5. A connect with a user name set and insecure mode not allowed, on a URI whose scheme is
  not a TLS one and for which the probe of \<open>has_linstor_https\<close> found no HTTPS port: the
  connect raises the network error that refuses the password, with the object unchanged (no
  transport was created, so no request of the client went out). The only actions before the
  refusal are those of the probe, made without credentials: its connect, and when that
  succeeded its request, and when that went out its read.
\<close>

theorem plaintext_credentials_are_refused_after_the_probe:
  assumes nc: "\<not> mode_curl s"
    and uri: "u = urlparse lib (ctrl_host s)"
      "port0 = (case port u of None \<Rightarrow> REST_PORT | Some p \<Rightarrow> if p \<noteq> 0 then p else REST_PORT)"
    and plain: "scheme u \<noteq> ''linstor+ssl''" "scheme u \<noteq> ''https''"
    and probe: "has_linstor_https lib net (hostname u) port0 w = (Inr https_port, w1)"
      "https_port = None \<or> https_port = Some 0"
    and creds: "truthy (username s)" "\<not> allow_insecure s"
  shows "Linstor_connect (Suc n) lib net s w =
           (Inl (LinstorNetworkError
                   ''Password authentication with HTTP not allowed, until explicitly enabled.'' []),
            s, w1) \<and>
         (w1 = w @ [ProbeConnect (hostname u) port0] \<or>
          w1 = w @ [ProbeConnect (hostname u) port0, ProbeRequest (hostname u) port0] \<or>
          w1 = w @ [ProbeConnect (hostname u) port0, ProbeRequest (hostname u) port0,
                    ProbeGetResponse (hostname u) port0])"
proof -
  have "connect_transport lib net s w =
          (Inl (LinstorNetworkError
                  ''Password authentication with HTTP not allowed, until explicitly enabled.'' []), w1)"
    using uri plain probe creds
    by (auto simp: connect_transport_def Let_def)
  from Linstor_connect_no_transport [OF nc this] has_linstor_https_history [OF probe(1)]
  show ?thesis by simp
qed


lemmas example_connect_defs =
  example_run_defs example_fresh_client_def net_replying_def net_downgraded_def reads_so_far_def
  example_password_client_def has_linstor_https_def version_error_def prerelease_less_def

theorem other_major_version_is_refused_witness:
  "Linstor_connect (Suc (Suc (Suc 0))) example_lib (net_replying (version_reply ''2.0.0''))
     example_fresh_client [] =
   (Inl (version_error ''2.0.0''),
    example_fresh_client\<lparr>rest_conn := Some example_conn,
      ctrl_version := Some (Instance ControllerVersion (JObj [(''rest_api_version'', JStr ''2.0.0'')]))\<rparr>,
    [Connect example_conn, Request example_conn ''GET'' ''/v1/controller/version'' None None,
     GetResponse example_conn, Close example_conn]) \<and>
   StrictVersion ''2.0.0'' = Inr ((2, 0, 0), None) \<and>
   \<not> strict_version_less ((2, 0, 0), None) ((1, 0, 4), None)"
proof -
  let ?net = "net_replying (version_reply ''2.0.0'')"
  let ?v = "Instance ControllerVersion (JObj [(''rest_api_version'', JStr ''2.0.0'')])"
  have nc: "\<not> mode_curl example_fresh_client"
    by (simp add: example_connect_defs)
  have transport: "connect_transport example_lib ?net example_fresh_client [] = (Inr example_conn, [])"
    by (simp add: example_connect_defs)
  have accepted: "on_connect ?net ([] @ [Connect example_conn]) = SockOk"
    by (simp add: example_connect_defs)
  have advertised: "controller_version (Suc (Suc 0)) example_lib ?net
                      (example_fresh_client\<lparr>rest_conn := Some example_conn\<rparr>) ([] @ [Connect example_conn]) =
                    (Inr ?v, example_fresh_client\<lparr>rest_conn := Some example_conn\<rparr>,
                     [Connect example_conn, Request example_conn ''GET'' ''/v1/controller/version'' None None,
                      GetResponse example_conn])"
    by (simp add: example_connect_defs)
  have ver: "rest_api_version ?v = Inr ''2.0.0''"
    by (simp add: rest_api_version_def)
  have family: "\<not> is_prefix ''1'' ''2.0.0''"
    by simp
  have order: "StrictVersion ''2.0.0'' = Inr ((2, 0, 0), None) \<and>
               \<not> strict_version_less ((2, 0, 0), None) ((1, 0, 4), None)"
    by (simp add: example_connect_defs)
  from other_major_version_is_refused [OF nc transport accepted advertised ver family] order
  show ?thesis by (simp add: example_connect_defs)
qed



theorem plaintext_credentials_are_refused_after_the_probe_witness:
  "Linstor_connect (Suc 0) example_lib (net_replying (version_reply ''1.0.4'')) example_password_client [] =
   (Inl (LinstorNetworkError
           ''Password authentication with HTTP not allowed, until explicitly enabled.'' []),
    example_password_client,
    [ProbeConnect ''ctrl'' 3370, ProbeRequest ''ctrl'' 3370, ProbeGetResponse ''ctrl'' 3370])"
proof -
  let ?net = "net_replying (version_reply ''1.0.4'')"
  have nc: "\<not> mode_curl example_password_client"
    by (simp add: example_connect_defs)
  have uri: "\<lparr>scheme = ''linstor'', hostname = ''ctrl'', port = None\<rparr> =
               urlparse example_lib (ctrl_host example_password_client)"
    "3370 = (case port \<lparr>scheme = ''linstor'', hostname = ''ctrl'', port = None\<rparr> of
               None \<Rightarrow> REST_PORT | Some p \<Rightarrow> if p \<noteq> 0 then p else REST_PORT)"
    by (simp_all add: example_connect_defs)
  have plain: "scheme \<lparr>scheme = ''linstor'', hostname = ''ctrl'', port = None\<rparr> \<noteq> ''linstor+ssl''"
    "scheme \<lparr>scheme = ''linstor'', hostname = ''ctrl'', port = None\<rparr> \<noteq> ''https''"
    by simp_all
  have probe: "has_linstor_https example_lib ?net
                 (hostname \<lparr>scheme = ''linstor'', hostname = ''ctrl'', port = None\<rparr>) 3370 [] =
               (Inr (Some 0),
                [ProbeConnect ''ctrl'' 3370, ProbeRequest ''ctrl'' 3370, ProbeGetResponse ''ctrl'' 3370])"
    "Some (0::nat) = None \<or> Some (0::nat) = Some 0"
    by (simp_all add: example_connect_defs)
  have creds: "truthy (username example_password_client)" "\<not> allow_insecure example_password_client"
    by (simp_all add: example_connect_defs)
  from plaintext_credentials_are_refused_after_the_probe [OF nc uri plain probe creds]
  show ?thesis by simp
qed

text \<open>
  With a reachable controller the probe's request is on the network before the connect
  refuses the credentials.
\<close>

theorem probe_request_is_sent_before_the_refusal:
  "snd (snd (Linstor_connect (Suc 0) example_lib (net_replying (version_reply ''1.0.4''))
               example_password_client [])) =
     [ProbeConnect ''ctrl'' 3370, ProbeRequest ''ctrl'' 3370, ProbeGetResponse ''ctrl'' 3370] \<and>
   fst (Linstor_connect (Suc 0) example_lib (net_replying (version_reply ''1.0.4''))
          example_password_client []) =
     Inl (LinstorNetworkError
            ''Password authentication with HTTP not allowed, until explicitly enabled.'' [])"
  by (simp add: example_connect_defs)

section \<open>Properties of the failover connect\<close>

lemma loop_network_error:
  assumes "Linstor_connect n lib net (s\<lparr>ctrl_host := h\<rparr>) w = (Inl e, s', w')" "is_network_error e"
  shows "MultiLinstor_connect_loop (Suc n) lib net (h # hs) errs s w =
           MultiLinstor_connect_loop (Suc n) lib net hs (errs @ [e]) s' w'"
  using assms by (cases e) (simp_all add: is_network_error_def)

lemma loop_other_error:
  assumes "Linstor_connect n lib net (s\<lparr>ctrl_host := h\<rparr>) w = (Inl e, s', w')" "\<not> is_network_error e"
  shows "MultiLinstor_connect_loop (Suc n) lib net (h # hs) errs s w = (Inl e, errs, s', w')"
  using assms by (cases e) (simp_all add: is_network_error_def)

lemma loop_success:
  assumes "Linstor_connect n lib net (s\<lparr>ctrl_host := h\<rparr>) w = (Inr b, s', w')"
  shows "MultiLinstor_connect_loop (Suc n) lib net (h # hs) errs s w = (Inr (Some b), errs, s', w')"
  using assms by simp

lemma loop_skips_failed:
  "all_fail n lib net hs1 s w = Some (es, s1, w1) \<Longrightarrow>
   MultiLinstor_connect_loop (Suc n) lib net (hs1 @ rest) errs s w =
     MultiLinstor_connect_loop (Suc n) lib net rest (errs @ es) s1 w1"
proof (induct hs1 arbitrary: s w errs es)
  case Nil
  then show ?case by simp
next
  case (Cons h hs1)
  obtain r s' w' where c: "Linstor_connect n lib net (s\<lparr>ctrl_host := h\<rparr>) w = (r, s', w')"
    by (metis prod_cases3)
  from Cons.prems c obtain e es' where r: "r = Inl e" and ne: "is_network_error e"
    and tl: "all_fail n lib net hs1 s' w' = Some (es', s1, w1)" and es: "es = e # es'"
    by (cases r) (auto split: if_splits option.splits)
  from Cons.hyps [OF tl, of "errs @ [e]"] loop_network_error [OF c [unfolded r] ne, of "hs1 @ rest" errs]
  show ?case by (simp add: es)
qed

lemma all_fail_length: "all_fail n lib net hs s w = Some (es, s1, w1) \<Longrightarrow> length es = length hs"
  by (induct hs arbitrary: s w es)
     (auto split: prod.splits sum.splits if_splits option.splits)

lemma all_fail_network_errors:
  "all_fail n lib net hs s w = Some (es, s1, w1) \<Longrightarrow> list_all is_network_error es"
  by (induct hs arbitrary: s w es)
     (auto split: prod.splits sum.splits if_splits option.splits)

lemma Linstor_connect_config:
  "Linstor_connect n lib net s w = (r, s', w') \<Longrightarrow> same_config s s'"
  by (rule preserved_all [OF stable_same_config, unfolded preserved_def, THEN conjunct2,
        THEN conjunct2, THEN conjunct2, THEN conjunct1, rule_format])

lemma all_fail_config:
  "all_fail n lib net hs s w = Some (es, s1, w1) \<Longrightarrow> same_config s s1"
proof (induct hs arbitrary: s w es)
  case Nil
  then show ?case by (simp add: same_config_def)
next
  case (Cons h hs)
  obtain r s' w' where c: "Linstor_connect n lib net (s\<lparr>ctrl_host := h\<rparr>) w = (r, s', w')"
    by (metis prod_cases3)
  from Cons.prems c obtain es' where tl: "all_fail n lib net hs s' w' = Some (es', s1, w1)"
    by (cases r) (auto split: if_splits option.splits)
  from Linstor_connect_config [OF c] Cons.hyps [OF tl] show ?case
    by (simp add: same_config_def)
qed

lemma connect_version_gate_success:
  "connect_version_gate v s2 w3 = (Inr b, s', w') \<Longrightarrow>
   b \<and> connected s' \<and> ctrl_host s' = ctrl_host s2 \<and> rest_conn s' = rest_conn s2"
  by (auto simp: connect_version_gate_def Let_def split: sum.splits bool.splits option.splits)

lemma Linstor_connect_success:
  assumes "Linstor_connect n lib net s w = (Inr b, s', w')"
  shows "b \<and> connected s'"
proof (cases n)
  case 0
  with assms show ?thesis by simp
next
  case (Suc k)
  from Linstor_connect_shape [OF assms [unfolded Suc]] show ?thesis
  proof (elim disjE conjE exE)
    fix c w2 rv s2 w3
    assume "case rv of Inl e \<Rightarrow> (Inr b, s', w') = (Inl e, s2, w3)
            | Inr v \<Rightarrow> connect_version_gate v s2 w3 = (Inr b, s', w')"
    then show ?thesis
      by (cases rv) (auto dest: connect_version_gate_success)
  qed auto
qed

lemma connect_transport_host:
  "connect_transport lib net s w = (Inr c, w1) \<Longrightarrow> host c = hostname (urlparse lib (ctrl_host s))"
  by (auto simp: connect_transport_def Let_def split: if_splits prod.splits sum.splits option.splits)

lemma Linstor_connect_no_keep_alive:
  assumes nka: "\<not> keep_alive s" and eq: "Linstor_connect n lib net s w = (Inr b, s', w')"
    and nc: "\<not> mode_curl s"
  shows "ctrl_host s' = ctrl_host s \<and>
         (\<exists>c. rest_conn s' = Some c \<and> host c = hostname (urlparse lib (ctrl_host s)))"
proof (cases n)
  case 0
  with eq show ?thesis by simp
next
  case (Suc k)
  note eq' = eq [unfolded Suc]
  obtain x w1 where ct: "connect_transport lib net s w = (x, w1)"
    by (cases "connect_transport lib net s w")
  show ?thesis
  proof (cases x)
    case (Inl e)
    with eq' Linstor_connect_no_transport [OF nc ct [unfolded Inl]] show ?thesis by simp
  next
    case (Inr c)
    note ct' = ct [unfolded Inr]
    show ?thesis
    proof (cases "on_connect net (w1 @ [Connect c])")
      case (SockError err)
      with eq' Linstor_connect_refused [OF nc ct' SockError] show ?thesis by simp
    next
      case SockOk
      obtain rv s2 w3
        where v: "controller_version k lib net (s\<lparr>rest_conn := Some c\<rparr>) (w1 @ [Connect c]) = (rv, s2, w3)"
        by (metis prod_cases3)
      from nka have "\<not> keep_alive (s\<lparr>rest_conn := Some c\<rparr>)" by simp
      from controller_version_no_keep_alive [OF this v] have s2: "s2 = s\<lparr>rest_conn := Some c\<rparr>" .
      from eq' Linstor_connect_opened [OF nc ct' SockOk, where n = k] v
      obtain ver where "connect_version_gate ver s2 w3 = (Inr b, s', w')"
        by (cases rv) auto
      from connect_version_gate_success [OF this] s2 connect_transport_host [OF ct']
      show ?thesis by simp
    qed
  qed
qed

text \<open>
  C6. The failover connect of an object whose host list is \<open>hosts\<close>. When the endpoints
  \<open>hs1\<close> at the head of the list each fail with a network error and the connect to the next
  endpoint \<open>h\<close> returns, the failover returns at \<open>h\<close>: the object and the history are those
  that the connect to \<open>h\<close> left (the endpoints after \<open>h\<close> are not tried), the object is
  connected, and \<open>conn_errors\<close> holds one network error per endpoint of \<open>hs1\<close>, in order. With
  keep-alive off the object then points at \<open>h\<close>: its host is \<open>h\<close> and its transport goes to
  the host name of \<open>h\<close>. When every endpoint of the list fails with a network error, the
  failover raises one network error that carries all of them, one per endpoint, in order.
\<close>

theorem failover_connect:
  assumes hosts: "ctrl_host_list s = Some hosts"
  shows "(hosts = hs1 @ h # hs2 \<and> all_fail n lib net hs1 s w = Some (es, s1, w1) \<and>
          Linstor_connect n lib net (s1\<lparr>ctrl_host := h\<rparr>) w1 = (Inr b, s2, w2) \<longrightarrow>
            MultiLinstor_connect (Suc (Suc n)) lib net s w = (Inr (Some True), s2, w2) \<and>
            MultiLinstor_connect_loop (Suc n) lib net hosts [] s w = (Inr (Some True), es, s2, w2) \<and>
            length es = length hs1 \<and> list_all is_network_error es \<and> connected s2 \<and>
            (keep_alive s \<or> mode_curl s \<or>
             (ctrl_host s2 = h \<and> (\<exists>c. rest_conn s2 = Some c \<and> host c = hostname (urlparse lib h))))) \<and>
         (all_fail n lib net hosts s w = Some (es', s1', w1') \<longrightarrow>
            MultiLinstor_connect (Suc (Suc n)) lib net s w =
              (Inl (LinstorNetworkError ''Unable to connect to any of the given controller hosts.'' es'),
               s1', w1') \<and>
            length es' = length hosts \<and> list_all is_network_error es')"
proof (intro conjI impI)
  assume a: "hosts = hs1 @ h # hs2 \<and> all_fail n lib net hs1 s w = Some (es, s1, w1) \<and>
          Linstor_connect n lib net (s1\<lparr>ctrl_host := h\<rparr>) w1 = (Inr b, s2, w2)"
  then have h: "hosts = hs1 @ h # hs2" and f: "all_fail n lib net hs1 s w = Some (es, s1, w1)"
    and c: "Linstor_connect n lib net (s1\<lparr>ctrl_host := h\<rparr>) w1 = (Inr b, s2, w2)" by simp_all
  from Linstor_connect_success [OF c] have b: "b" and conn: "connected s2" by simp_all
  show loop: "MultiLinstor_connect_loop (Suc n) lib net hosts [] s w = (Inr (Some True), es, s2, w2)"
    using loop_skips_failed [OF f, of "h # hs2" "[]"] loop_success [OF c, of hs2 es] h b by simp
  then show "MultiLinstor_connect (Suc (Suc n)) lib net s w = (Inr (Some True), s2, w2)"
    using hosts by simp
  show "length es = length hs1" by (rule all_fail_length [OF f])
  show "list_all is_network_error es" by (rule all_fail_network_errors [OF f])
  show "connected s2" by (rule conn)
  show "keep_alive s \<or> mode_curl s \<or>
        (ctrl_host s2 = h \<and> (\<exists>c. rest_conn s2 = Some c \<and> host c = hostname (urlparse lib h)))"
  proof (cases "keep_alive s \<or> mode_curl s")
    case True
    then show ?thesis by blast
  next
    case False
    with all_fail_config [OF f] have "\<not> keep_alive (s1\<lparr>ctrl_host := h\<rparr>)" "\<not> mode_curl (s1\<lparr>ctrl_host := h\<rparr>)"
      by (simp_all add: same_config_def)
    from Linstor_connect_no_keep_alive [OF this(1) c this(2)] show ?thesis by simp
  qed
next
  assume f: "all_fail n lib net hosts s w = Some (es', s1', w1')"
  from all_fail_config [OF f] hosts have hs: "ctrl_host_list s1' = Some hosts"
    by (simp add: same_config_def)
  show len: "length es' = length hosts" by (rule all_fail_length [OF f])
  show "list_all is_network_error es'" by (rule all_fail_network_errors [OF f])
  have "MultiLinstor_connect_loop (Suc n) lib net hosts [] s w =
          (Inl (LinstorNetworkError ''Unable to connect to any of the given controller hosts.'' es'),
           es', s1', w1')"
    using loop_skips_failed [OF f, of "[]" "[]"] hs len by simp
  then show "MultiLinstor_connect (Suc (Suc n)) lib net s w =
              (Inl (LinstorNetworkError ''Unable to connect to any of the given controller hosts.'' es'),
               s1', w1')"
    using hosts by simp
qed

text \<open>
  C10. In the failover loop, after the endpoints \<open>hs1\<close> failed with network errors, a connect
  to the next endpoint that raises an exception other than a network error ends the loop with
  that exception: the object and the history are those the failed connect left, so no later
  endpoint is tried. A network error is appended to \<open>conn_errors\<close> and the loop goes on with
  the remaining endpoints.
\<close>

theorem failover_stops_at_other_errors:
  assumes hosts: "ctrl_host_list s = Some (hs1 @ h # hs2)"
    and before: "all_fail n lib net hs1 s w = Some (es, s1, w1)"
    and failed: "Linstor_connect n lib net (s1\<lparr>ctrl_host := h\<rparr>) w1 = (Inl e, s2, w2)"
  shows "(\<not> is_network_error e \<longrightarrow>
            MultiLinstor_connect_loop (Suc n) lib net (hs1 @ h # hs2) [] s w = (Inl e, es, s2, w2) \<and>
            MultiLinstor_connect (Suc (Suc n)) lib net s w = (Inl e, s2, w2)) \<and>
         (is_network_error e \<longrightarrow>
            MultiLinstor_connect_loop (Suc n) lib net (hs1 @ h # hs2) [] s w =
              MultiLinstor_connect_loop (Suc n) lib net hs2 (es @ [e]) s2 w2)"
  using loop_skips_failed [OF before, of "h # hs2" "[]"]
    loop_other_error [OF failed, of hs2 es] loop_network_error [OF failed, of hs2 es] hosts
  by auto


lemmas example_failover_defs =
  example_connect_defs conn_to_def last_connect_host_def connects_so_far_def net_a_down_def
  net_all_down_def net_flapping_def example_failover_client_def
  example_password_failover_client_def example_version_def is_network_error_def

theorem failover_connect_witness:
  "MultiLinstor_connect (Suc (Suc (Suc (Suc (Suc 0))))) example_lib net_a_down
     (example_failover_client False) [] =
   (Inr (Some True),
    (example_failover_client False)
      \<lparr>ctrl_host := ''https://b'', rest_conn := Some (conn_to ''b''),
       ctrl_version := Some (example_version ''1.0.4''), connected := True\<rparr>,
    [Connect (conn_to ''a''), Connect (conn_to ''b''),
     Request (conn_to ''b'') ''GET'' ''/v1/controller/version'' None None, GetResponse (conn_to ''b'')]) \<and>
   MultiLinstor_connect_loop (Suc (Suc (Suc (Suc 0)))) example_lib net_a_down
     [''https://a'', ''https://b''] [] (example_failover_client False) [] =
   (Inr (Some True),
    [LinstorNetworkError ''Unable to connect to https://a: Connection refused'' []],
    (example_failover_client False)
      \<lparr>ctrl_host := ''https://b'', rest_conn := Some (conn_to ''b''),
       ctrl_version := Some (example_version ''1.0.4''), connected := True\<rparr>,
    [Connect (conn_to ''a''), Connect (conn_to ''b''),
     Request (conn_to ''b'') ''GET'' ''/v1/controller/version'' None None, GetResponse (conn_to ''b'')]) \<and>
   MultiLinstor_connect (Suc (Suc (Suc (Suc (Suc 0))))) example_lib net_all_down
     (example_failover_client False) [] =
   (Inl (LinstorNetworkError ''Unable to connect to any of the given controller hosts.''
          [LinstorNetworkError ''Unable to connect to https://a: Connection refused'' [],
           LinstorNetworkError ''Unable to connect to https://b: Connection refused'' []]),
    (example_failover_client False)\<lparr>ctrl_host := ''https://b'', rest_conn := Some (conn_to ''b'')\<rparr>,
    [Connect (conn_to ''a''), Connect (conn_to ''b'')])"
proof -
  let ?s = "example_failover_client False"
  let ?ea = "LinstorNetworkError ''Unable to connect to https://a: Connection refused'' []"
  let ?eb = "LinstorNetworkError ''Unable to connect to https://b: Connection refused'' []"
  let ?s1 = "?s\<lparr>ctrl_host := ''https://a'', rest_conn := Some (conn_to ''a'')\<rparr>"
  let ?s2 = "?s\<lparr>ctrl_host := ''https://b'', rest_conn := Some (conn_to ''b''),
       ctrl_version := Some (example_version ''1.0.4''), connected := True\<rparr>"
  let ?w2 = "[Connect (conn_to ''a''), Connect (conn_to ''b''),
     Request (conn_to ''b'') ''GET'' ''/v1/controller/version'' None None, GetResponse (conn_to ''b'')]"
  have hosts: "ctrl_host_list ?s = Some [''https://a'', ''https://b'']"
    by (simp add: example_failover_defs)
  have split: "[''https://a'', ''https://b''] = [''https://a''] @ ''https://b'' # []"
    by simp
  have first: "all_fail (Suc (Suc (Suc 0))) example_lib net_a_down [''https://a''] ?s [] =
                 Some ([?ea], ?s1, [Connect (conn_to ''a'')])"
    by (simp add: example_failover_defs)
  have second: "Linstor_connect (Suc (Suc (Suc 0))) example_lib net_a_down
                  (?s1\<lparr>ctrl_host := ''https://b''\<rparr>) [Connect (conn_to ''a'')] = (Inr True, ?s2, ?w2)"
    by (simp add: example_failover_defs)
  have both: "all_fail (Suc (Suc (Suc 0))) example_lib net_all_down [''https://a'', ''https://b''] ?s [] =
                Some ([?ea, ?eb],
                      ?s\<lparr>ctrl_host := ''https://b'', rest_conn := Some (conn_to ''b'')\<rparr>,
                      [Connect (conn_to ''a''), Connect (conn_to ''b'')])"
    by (simp add: example_failover_defs)
  from failover_connect [OF hosts, THEN conjunct1, rule_format, OF conjI [OF split conjI [OF first second]]]
    failover_connect [OF hosts, THEN conjunct2, rule_format, OF both]
  show ?thesis by simp
qed

text \<open>
  With keep-alive on, the endpoints \<open>a\<close> and \<open>b\<close>, and a socket error at the read of the first
  version query: the connect to \<open>a\<close> reconnects, which runs the failover again; \<open>a\<close> now
  refuses, \<open>b\<close> accepts, and the retried version query is answered by \<open>b\<close>. The connect to
  \<open>a\<close> returns, so the loop returns at its first endpoint with no error collected, and the
  object points at \<open>b\<close>.
\<close>

theorem keep_alive_failover_ends_on_another_endpoint:
  "MultiLinstor_connect_loop (Suc (Suc (Suc (Suc (Suc (Suc (Suc (Suc (Suc (Suc 0)))))))))) example_lib
     net_flapping [''https://a'', ''https://b''] [] (example_failover_client True) [] =
   (Inr (Some True), [],
    (example_failover_client True)
      \<lparr>ctrl_host := ''https://b'', rest_conn := Some (conn_to ''b''),
       ctrl_version := Some (example_version ''1.0.4''), connected := True\<rparr>,
    [Connect (conn_to ''a''),
     Request (conn_to ''a'') ''GET'' ''/v1/controller/version'' None None, GetResponse (conn_to ''a''),
     Connect (conn_to ''a''), Connect (conn_to ''b''),
     Request (conn_to ''b'') ''GET'' ''/v1/controller/version'' None None, GetResponse (conn_to ''b''),
     Request (conn_to ''b'') ''GET'' ''/v1/controller/version'' None None, GetResponse (conn_to ''b'')])"
  by (simp add: example_failover_defs)

theorem failover_stops_at_other_errors_witness:
  "MultiLinstor_connect (Suc (Suc (Suc (Suc (Suc 0))))) example_lib (net_replying (version_reply ''1.0.3''))
     (example_failover_client False) [] =
   (Inl (version_error ''1.0.3''),
    (example_failover_client False)
      \<lparr>ctrl_host := ''https://a'', rest_conn := Some (conn_to ''a''),
       ctrl_version := Some (example_version ''1.0.3'')\<rparr>,
    [Connect (conn_to ''a''),
     Request (conn_to ''a'') ''GET'' ''/v1/controller/version'' None None, GetResponse (conn_to ''a''),
     Close (conn_to ''a'')])"
proof -
  let ?s = "example_failover_client False"
  let ?net = "net_replying (version_reply ''1.0.3'')"
  have hosts: "ctrl_host_list ?s = Some ([] @ ''https://a'' # [''https://b''])"
    by (simp add: example_failover_defs)
  have before: "all_fail (Suc (Suc (Suc 0))) example_lib ?net [] ?s [] = Some ([], ?s, [])"
    by simp
  have failed: "Linstor_connect (Suc (Suc (Suc 0))) example_lib ?net (?s\<lparr>ctrl_host := ''https://a''\<rparr>) [] =
     (Inl (version_error ''1.0.3''),
      ?s\<lparr>ctrl_host := ''https://a'', rest_conn := Some (conn_to ''a''),
         ctrl_version := Some (example_version ''1.0.3'')\<rparr>,
      [Connect (conn_to ''a''),
       Request (conn_to ''a'') ''GET'' ''/v1/controller/version'' None None, GetResponse (conn_to ''a''),
       Close (conn_to ''a'')])"
    by (simp add: example_failover_defs)
  have other: "\<not> is_network_error (version_error ''1.0.3'')"
    by (simp add: example_failover_defs)
  from failover_stops_at_other_errors [OF hosts before failed] other
  show ?thesis by simp
qed

text \<open>
  The refusal of credentials over plaintext is a network error: with the endpoints
  \<open>linstor://a\<close> and \<open>https://b\<close> and a user name set, the refusal at \<open>a\<close> is collected and
  the failover goes on to \<open>b\<close>, where it connects.
\<close>

theorem plaintext_refusal_is_collected_and_failover_goes_on:
  "MultiLinstor_connect (Suc (Suc (Suc (Suc (Suc 0))))) example_lib (net_replying (version_reply ''1.0.4''))
     example_password_failover_client [] =
   (Inr (Some True),
    example_password_failover_client
      \<lparr>ctrl_host := ''https://b'', rest_conn := Some (conn_to ''b''),
       ctrl_version := Some (example_version ''1.0.4''), connected := True\<rparr>,
    [ProbeConnect ''a'' 3370, ProbeRequest ''a'' 3370, ProbeGetResponse ''a'' 3370,
     Connect (conn_to ''b''),
     Request (conn_to ''b'') ''GET'' ''/v1/controller/version'' None (Some ''admin:secret''),
     GetResponse (conn_to ''b'')])"
  by (simp add: example_failover_defs)

end
